theory Spec2Isabelle
  imports Complex_Main "HOL-Library.Multiset" "HOL-Library.Sublist" "HOL-Library.AList"
begin

section \<open>Data model (types/diagram.ts, types/rewrite.ts)\<close>

text \<open>
  A JavaScript \<open>number\<close> is a finite value, \<open>NaN\<close>, or one of the two infinities.
  The finite values are kept as rationals (every finite double is one). The comparisons
  \<open><\<close> and \<open>>\<close> answer false as soon as one side is \<open>NaN\<close>; \<open>===\<close> on two
  numbers is equality, except that \<open>NaN === NaN\<close> is false. Against a literal, as in
  \<open>dimension === 0\<close>, \<open>===\<close> is plain equality with \<open>Num 0\<close>. The value
  \<open>-0\<close> is identified with \<open>0\<close>: no comparison of the source tells them apart, and
  every function below copies a dimension or an index unchanged.
\<close>

datatype number = Num rat | NaN | PosInf | NegInf

fun numLt :: "number \<Rightarrow> number \<Rightarrow> bool" where
  "numLt (Num x) (Num y) = (x < y)"
| "numLt (Num x) PosInf = True"
| "numLt NegInf (Num y) = True"
| "numLt NegInf PosInf = True"
| "numLt a b = False"

abbreviation numGt :: "number \<Rightarrow> number \<Rightarrow> bool" where
  "numGt a b \<equiv> numLt b a"

definition numEq :: "number \<Rightarrow> number \<Rightarrow> bool" where
  "numEq a b = (a = b \<and> a \<noteq> NaN)"

text \<open>
  \<open>a - b\<close>, \<open>Math.abs\<close> and \<open>Math.max\<close>. The difference of two finite values is
  exact here, where the source rounds it to the nearest double; the two give the same
  answers to \<open>=== 1\<close> and \<open>> 2\<close> whenever both values are integers of magnitude below
  \<open>2^53\<close>. The difference is only taken by \<open>getCompositionType\<close>.
\<close>

fun numSub :: "number \<Rightarrow> number \<Rightarrow> number" where
  "numSub (Num x) (Num y) = Num (x - y)"
| "numSub NaN b = NaN"
| "numSub a NaN = NaN"
| "numSub PosInf PosInf = NaN"
| "numSub NegInf NegInf = NaN"
| "numSub PosInf b = PosInf"
| "numSub NegInf b = NegInf"
| "numSub (Num x) PosInf = NegInf"
| "numSub (Num x) NegInf = PosInf"

fun numAbs :: "number \<Rightarrow> number" where
  "numAbs (Num x) = Num \<bar>x\<bar>"
| "numAbs NaN = NaN"
| "numAbs PosInf = PosInf"
| "numAbs NegInf = PosInf"

definition numMax :: "number \<Rightarrow> number \<Rightarrow> number" where
  "numMax a b = (if a = NaN \<or> b = NaN then NaN else if numLt a b then b else a)"

text \<open>
  The TypeScript interfaces are embedded as datatypes. \<open>Generator.color\<close> is the union
  \<open>'cartesian' | 'cocartesian'\<close>, optional. \<open>Rewrite\<close> is the union
  \<open>Rewrite0 | RewriteI | RewriteN\<close>: \<open>Rewrite0 s t\<close> is the object
  \<open>{dimension: 0, source: s, target: t}\<close>, \<open>RewriteI\<close> is
  \<open>{dimension: 1, identity: true}\<close>, and \<open>RewriteN n cs\<close> is
  \<open>{dimension: n, cones: cs}\<close> for an arbitrary number \<open>n\<close>, so
  \<open>RewriteN (Num 0) cs\<close> and \<open>RewriteN (Num 1) cs\<close> are well-typed values that the
  validator rejects, and \<open>RewriteN NaN cs\<close> or \<open>RewriteN (Num (1/2)) cs\<close> are
  well-typed values that it accepts. The same holds for \<open>DiagramN\<close>.

  \<open>DiagramN.cospans\<close> is declared \<open>any[]\<close>. No function below reads an element
  of it unless \<open>isValidCospan\<close> has answered true on that element; otherwise the
  element is kept or dropped unread. The elements that are no cospans at all are therefore
  represented by the structurally invalid cospan values. Values that contain themselves are
  no values of these datatypes; they are the subject of the section on untyped values.
\<close>

datatype polarity = Cartesian | Cocartesian

record generator =
  idG :: string
  label :: "string option"
  color :: "polarity option"

datatype rewrite =
    Rewrite0 generator generator
  | RewriteI
  | RewriteN number "cone list"
and cone = Cone number "cospan list" cospan "rewrite list"
and cospan = Cospan (forward: rewrite) (backward: rewrite)

datatype diagram =
    Diagram0 generator
  | DiagramN number diagram "cospan list"

text \<open>
  Every \<open>throw new Error(msg)\<close> of the source is the value \<open>Inl (Error msg)\<close>;
  \<open>NonError\<close> is a thrown value that is not an \<open>Error\<close> object (a pluggable
  validator may throw anything). \<open>OutsideModel\<close> is not an exception: it marks a
  returned object that is no value of the typed model, because it was built from a field
  that is \<open>undefined\<close>. The call stack is not bounded here: a real engine also aborts,
  with a RangeError, on a value nested deeper than its stack allows.
\<close>

datatype error = Error string | NonError | OutsideModel

text \<open>
  Reading the field \<open>p\<close> of \<open>undefined\<close> throws a TypeError, an \<open>Error\<close> object
  whose message is worded by the engine; the wording here is the one of V8.
\<close>

definition typeError :: "string \<Rightarrow> error" where
  "typeError p =
     Error (''Cannot read properties of undefined (reading '' @ [CHR 0x27] @ p @ [CHR 0x27] @ '')'')"

definition bindE :: "error + 'a \<Rightarrow> ('a \<Rightarrow> error + 'b) \<Rightarrow> error + 'b" where
  "bindE m f = (case m of Inl e \<Rightarrow> Inl e | Inr x \<Rightarrow> f x)"

text \<open>\<open>Array.prototype.map\<close> with a callback that may throw: the first exception wins.\<close>

fun mapE :: "('a \<Rightarrow> error + 'b) \<Rightarrow> 'a list \<Rightarrow> error + 'b list" where
  "mapE f [] = Inr []"
| "mapE f (x # xs) =
     (case f x of Inl e \<Rightarrow> Inl e
      | Inr y \<Rightarrow> (case mapE f xs of Inl e \<Rightarrow> Inl e | Inr ys \<Rightarrow> Inr (y # ys)))"

lemma bindE_cong [fundef_cong]:
  "m = m' \<Longrightarrow> (\<And>x. m' = Inr x \<Longrightarrow> f x = g x) \<Longrightarrow> bindE m f = bindE m' g"
  by (auto simp: bindE_def split: sum.splits)

lemma mapE_cong [fundef_cong]:
  "xs = ys \<Longrightarrow> (\<And>x. x \<in> set ys \<Longrightarrow> f x = g x) \<Longrightarrow> mapE f xs = mapE g ys"
proof (induction ys arbitrary: xs)
  case Nil
  then show ?case by simp
next
  case (Cons y ys)
  then show ?case by (auto split: sum.splits)
qed

fun dimensionR :: "rewrite \<Rightarrow> number" where
  "dimensionR (Rewrite0 s t) = Num 0"
| "dimensionR RewriteI = Num 1"
| "dimensionR (RewriteN n cs) = n"

fun dimensionD :: "diagram \<Rightarrow> number" where
  "dimensionD (Diagram0 g) = Num 0"
| "dimensionD (DiagramN n src cs) = n"

text \<open>
  \<open>rewrite.dimension === 1 && 'identity' in rewrite && rewrite.identity\<close>: only the
  \<open>RewriteI\<close> shape has the \<open>identity\<close> field.
\<close>

fun isIdentity :: "rewrite \<Rightarrow> bool" where
  "isIdentity RewriteI = True"
| "isIdentity r = False"

section \<open>Structural validator on typed values\<close>

text \<open>
  \<open>isValidGenerator\<close>: the checks on \<open>label\<close> and \<open>color\<close> hold by typing, the
  check that remains is \<open>generator.id !== ''\<close>.
\<close>

definition isValidGenerator :: "generator \<Rightarrow> bool" where
  "isValidGenerator g = (idG g \<noteq> [])"

text \<open>
  \<open>isValidRewrite\<close>: at dimension 0 the fields \<open>source\<close>/\<open>target\<close> are read, at
  dimension 1 the field \<open>identity\<close>; a \<open>RewriteN\<close> has neither, so it is rejected there.
  Every other dimension that is not below 0 goes on to the cones: a fraction, an infinity
  and \<open>NaN\<close> included.
\<close>

fun isValidRewrite :: "rewrite \<Rightarrow> bool"
  and isValidCone :: "cone \<Rightarrow> bool"
  and isValidCospan :: "cospan \<Rightarrow> bool" where
  "isValidRewrite (Rewrite0 s t) = (isValidGenerator s \<and> isValidGenerator t)"
| "isValidRewrite RewriteI = True"
| "isValidRewrite (RewriteN n cs) =
     (if n = Num 0 then False
      else if n = Num 1 then False
      else if numLt n (Num 0) then False
      else list_all isValidCone cs)"
| "isValidCone (Cone i src tgt sl) =
     (if numLt i (Num 0) then False
      else if \<not> isValidCospan tgt then False
      else if \<not> list_all isValidCospan src then False
      else list_all isValidRewrite sl)"
| "isValidCospan (Cospan f b) = (isValidRewrite f \<and> isValidRewrite b)"

text \<open>
  \<open>isValidDiagram\<close>: a \<open>DiagramN\<close> of dimension 0 has no \<open>generator\<close> and is
  rejected; every other dimension that is not below 0 goes on to the source. The elements
  of \<open>cospans\<close> are not inspected.
\<close>

fun isValidDiagram :: "diagram \<Rightarrow> bool" where
  "isValidDiagram (Diagram0 g) = isValidGenerator g"
| "isValidDiagram (DiagramN n src cs) =
     (if n = Num 0 then False
      else if numLt n (Num 0) then False
      else if \<not> isValidDiagram src then False
      else True)"

definition createEmptyDiagram :: diagram where
  "createEmptyDiagram =
     Diagram0 \<lparr>idG = ''empty'', label = Some [CHR 0xCE, CHR 0xB5], color = None\<rparr>"

definition createGeneratorDiagram :: "generator \<Rightarrow> diagram" where
  "createGeneratorDiagram g = Diagram0 g"

definition createGeneratorRewrite :: "generator \<Rightarrow> generator \<Rightarrow> rewrite" where
  "createGeneratorRewrite s t = Rewrite0 s t"

definition createIdentityRewrite :: rewrite where
  "createIdentityRewrite = RewriteI"

section \<open>Normalization (engine/normalization.ts)\<close>

definition MAX_DEPTH :: nat where
  "MAX_DEPTH = 100"

fun normalizeRewrite :: "rewrite \<Rightarrow> error + rewrite"
  and normalizeCone :: "cone \<Rightarrow> error + cone"
  and normalizeCospan :: "cospan \<Rightarrow> error + cospan" where
  "normalizeRewrite (Rewrite0 s t) =
     (if \<not> isValidRewrite (Rewrite0 s t)
      then Inl (Error ''Cannot normalize invalid rewrite structure'')
      else Inr (Rewrite0 s t))"
| "normalizeRewrite RewriteI = Inr RewriteI"
| "normalizeRewrite (RewriteN n cs) =
     (if \<not> isValidRewrite (RewriteN n cs)
      then Inl (Error ''Cannot normalize invalid rewrite structure'')
      else if numGt n (Num 1)
      then bindE (mapE normalizeCone cs) (\<lambda>normalizedCones. Inr (RewriteN n normalizedCones))
      else Inr (RewriteN n cs))"
| "normalizeCone (Cone i src tgt sl) =
     bindE (mapE normalizeCospan src) (\<lambda>src'.
     bindE (normalizeCospan tgt) (\<lambda>tgt'.
     bindE (mapE normalizeRewrite sl) (\<lambda>sl'.
     Inr (Cone i src' tgt' sl'))))"
| "normalizeCospan (Cospan f b) =
     bindE (normalizeRewrite f) (\<lambda>f'.
     bindE (normalizeRewrite b) (\<lambda>b'.
     Inr (Cospan f' b')))"

definition isRedundantCospan :: "cospan \<Rightarrow> bool" where
  "isRedundantCospan c = (isIdentity (forward c) \<and> isIdentity (backward c))"

fun reduceRedundantCospans :: "cospan list \<Rightarrow> cospan list" where
  "reduceRedundantCospans [] = []"
| "reduceRedundantCospans (c # cs) =
     (if isValidCospan c
      then (if isRedundantCospan c then reduceRedundantCospans cs
            else c # reduceRedundantCospans cs)
      else reduceRedundantCospans cs)"

text \<open>
  \<open>checkCycles\<close> inside \<open>normalizeDiagram\<close>. The \<open>visited\<close> set holds object
  identities along one \<open>source\<close> chain; on a tree-shaped value no node of the chain
  repeats, so only the depth test can fire. The walk goes on to the source only while
  \<open>d.dimension > 0\<close>, which is false of \<open>NaN\<close>.
\<close>

fun checkCycles :: "diagram \<Rightarrow> nat \<Rightarrow> error option" where
  "checkCycles (Diagram0 g) depth =
     (if depth > MAX_DEPTH
      then Some (Error ''Maximum normalization depth exceeded - possible cycle detected'')
      else None)"
| "checkCycles (DiagramN n src cs) depth =
     (if depth > MAX_DEPTH
      then Some (Error ''Maximum normalization depth exceeded - possible cycle detected'')
      else if numGt n (Num 0) then checkCycles src (depth + 1)
      else None)"

fun normalizeDiagram :: "diagram \<Rightarrow> error + diagram" where
  "normalizeDiagram (Diagram0 g) =
     (if \<not> isValidDiagram (Diagram0 g)
      then Inl (Error ''Cannot normalize invalid diagram structure'')
      else case checkCycles (Diagram0 g) 0 of
        Some e \<Rightarrow> Inl e
      | None \<Rightarrow> Inr (Diagram0 g))"
| "normalizeDiagram (DiagramN n src cs) =
     (if \<not> isValidDiagram (DiagramN n src cs)
      then Inl (Error ''Cannot normalize invalid diagram structure'')
      else case checkCycles (DiagramN n src cs) 0 of
        Some e \<Rightarrow> Inl e
      | None \<Rightarrow>
          if n = Num 0 then Inr (DiagramN n src cs)
          else
            bindE (normalizeDiagram src) (\<lambda>normalizedSource.
            bindE (mapE (\<lambda>c. if isValidCospan c then normalizeCospan c else Inr c) cs)
              (\<lambda>normalizedCospans.
            Inr (DiagramN n normalizedSource (reduceRedundantCospans normalizedCospans)))))"

text \<open>
  \<open>rewrite.source\<close> and \<open>rewrite.target\<close> are \<open>undefined\<close> on a rewrite that is
  not of the \<open>Rewrite0\<close> shape, and reading \<open>.id\<close> of \<open>undefined\<close> throws.
\<close>

fun sourceR :: "rewrite \<Rightarrow> generator option" where
  "sourceR (Rewrite0 s t) = Some s"
| "sourceR r = None"

fun targetR :: "rewrite \<Rightarrow> generator option" where
  "targetR (Rewrite0 s t) = Some t"
| "targetR r = None"

fun idOf :: "generator option \<Rightarrow> error + string" where
  "idOf (Some g) = Inr (idG g)"
| "idOf None = Inl (typeError ''id'')"

definition areInverses :: "rewrite \<Rightarrow> rewrite \<Rightarrow> error + bool" where
  "areInverses rewrite1 rewrite2 =
     (if \<not> numEq (dimensionR rewrite1) (dimensionR rewrite2) \<or> dimensionR rewrite1 \<noteq> Num 0
      then Inr False
      else
        bindE (idOf (sourceR rewrite1)) (\<lambda>s1.
        bindE (idOf (targetR rewrite2)) (\<lambda>t2.
        if s1 \<noteq> t2 then Inr False
        else
          bindE (idOf (targetR rewrite1)) (\<lambda>t1.
          bindE (idOf (sourceR rewrite2)) (\<lambda>s2.
          Inr (t1 = s2))))))"

definition areComposable :: "rewrite \<Rightarrow> rewrite \<Rightarrow> error + bool" where
  "areComposable rewrite1 rewrite2 =
     (if dimensionR rewrite1 \<noteq> Num 0 \<or> dimensionR rewrite2 \<noteq> Num 0
      then Inr False
      else
        bindE (idOf (targetR rewrite1)) (\<lambda>t1.
        bindE (idOf (sourceR rewrite2)) (\<lambda>s2.
        Inr (t1 = s2))))"

text \<open>
  Once \<open>areComposable\<close> has returned true both arguments have the \<open>Rewrite0\<close>
  shape, so the last case of \<open>composeForReduction\<close> is never reached.
\<close>

definition composeForReduction :: "rewrite \<Rightarrow> rewrite \<Rightarrow> error + rewrite" where
  "composeForReduction rewrite1 rewrite2 =
     bindE (areComposable rewrite1 rewrite2) (\<lambda>ok.
     if \<not> ok then Inl (Error ''Rewrites are not composable for reduction'')
     else (case (sourceR rewrite1, targetR rewrite2) of
             (Some s, Some t) \<Rightarrow> Inr (Rewrite0 s t)
           | _ \<Rightarrow> Inl OutsideModel))"

text \<open>
  The \<open>for\<close> loop of \<open>reduceTerms\<close> over the normalized terms: the list argument is
  the part of \<open>normalized\<close> from index \<open>i\<close> on, the result is what the loop pushes onto
  \<open>reduced\<close> from there.
\<close>

fun reduceLoop :: "rewrite list \<Rightarrow> error + rewrite list" where
  "reduceLoop [] = Inr []"
| "reduceLoop [current] = (if isIdentity current then Inr [] else Inr [current])"
| "reduceLoop (current # next # rest) =
     (if isIdentity current then reduceLoop (next # rest)
      else
        bindE (areInverses current next) (\<lambda>inv.
        if inv then reduceLoop rest
        else
          bindE (areComposable current next) (\<lambda>comp.
          if comp
          then bindE (composeForReduction current next) (\<lambda>composed.
               bindE (reduceLoop rest) (\<lambda>reduced. Inr (composed # reduced)))
          else bindE (reduceLoop (next # rest)) (\<lambda>reduced. Inr (current # reduced)))))"

definition reduceTerms :: "rewrite list \<Rightarrow> error + rewrite list" where
  "reduceTerms terms =
     (if length terms = 0 then Inr []
      else if length terms = 1
      then bindE (normalizeRewrite (hd terms)) (\<lambda>r. Inr [r])
      else bindE (mapE normalizeRewrite terms) reduceLoop)"








section \<open>Composition (engine/composition.ts)\<close>

datatype severity = SevError | SevWarning | SevInfo

record NPRValidationError =
  code :: string
  message :: string
  severity :: severity
  location :: "string option"

datatype CompositionType = Horizontal | Vertical | Whiskering | Invalid

text \<open>
  \<open>diagram.generator\<close> is \<open>undefined\<close> on a \<open>DiagramN\<close>; reading a field of it
  throws a TypeError. This only happens on a \<open>DiagramN\<close> of dimension 0, which is not
  structurally valid.
\<close>

fun generatorD :: "diagram \<Rightarrow> generator option" where
  "generatorD (Diagram0 g) = Some g"
| "generatorD (DiagramN n src cs) = None"

definition validateDiagramComposition ::
    "diagram \<Rightarrow> diagram \<Rightarrow> error + NPRValidationError list" where
  "validateDiagramComposition left right =
     (let errors1 =
            (if \<not> isValidDiagram left
             then [\<lparr>code = ''INVALID_LEFT_DIAGRAM'',
                    message = ''Left diagram is structurally invalid'',
                    severity = SevError, location = None\<rparr>]
             else []);
          errors2 =
            (if \<not> isValidDiagram right
             then errors1 @ [\<lparr>code = ''INVALID_RIGHT_DIAGRAM'',
                    message = ''Right diagram is structurally invalid'',
                    severity = SevError, location = None\<rparr>]
             else errors1)
      in if dimensionD left = Num 0 \<and> dimensionD right = Num 0
         then (case (generatorD left, generatorD right) of
                 (Some gl, Some gr) \<Rightarrow> Inr errors2
               | _ \<Rightarrow> Inl (typeError ''color''))
         else Inr errors2)"

definition isEmptyDiagram :: "diagram \<Rightarrow> error + bool" where
  "isEmptyDiagram d =
     (if dimensionD d = Num 0
      then bindE (idOf (generatorD d)) (\<lambda>i. Inr (i = ''empty''))
      else Inr False)"

definition areVerticallyComposable :: "diagram \<Rightarrow> diagram \<Rightarrow> bool" where
  "areVerticallyComposable left right =
     (if dimensionD left = Num 0 \<and> dimensionD right = Num 0 then False
      else if \<not> numEq (dimensionD left) (dimensionD right) then False
      else True)"

definition getCompositionType :: "diagram \<Rightarrow> diagram \<Rightarrow> CompositionType" where
  "getCompositionType left right =
     (if \<not> isValidDiagram left \<or> \<not> isValidDiagram right then Invalid
      else if numEq (dimensionD left) (dimensionD right)
      then (if dimensionD left = Num 0 then Horizontal
            else if areVerticallyComposable left right then Vertical
            else Horizontal)
      else if numAbs (numSub (dimensionD left) (dimensionD right)) = Num 1 then Whiskering
      else if numGt (numAbs (numSub (dimensionD left) (dimensionD right))) (Num 2) then Invalid
      else Horizontal)"

text \<open>
  The dispatch targets read \<open>generator\<close>, \<open>source\<close> and \<open>cospans\<close> by dimension. On
  a \<open>DiagramN\<close> of dimension 0 (or a \<open>Diagram0\<close> taken as the higher operand) the field
  read is \<open>undefined\<close> and the object built is not a typed \<open>Diagram\<close>; those cases are
  \<open>Inl OutsideModel\<close> here. They need a structurally invalid operand, and
  \<open>composeDiagrams\<close> rejects those before dispatching.
\<close>

fun composeHorizontally :: "diagram \<Rightarrow> diagram \<Rightarrow> error + diagram" where
  "composeHorizontally (Diagram0 gl) (Diagram0 gr) =
     Inr (DiagramN (Num 1) (Diagram0 gl)
            [Cospan (createGeneratorRewrite gl gr) (createGeneratorRewrite gr gl)])"
| "composeHorizontally (DiagramN nl sl cl) (DiagramN nr sr cr) =
     (if nl = Num 0 \<and> nr = Num 0 then Inl OutsideModel
      else if numGt nl (Num 0) \<and> numGt nr (Num 0)
      then bindE (composeHorizontally sl sr) (\<lambda>composedSource.
           Inr (DiagramN (numMax nl nr) composedSource (cl @ cr)))
      else if numGt nl nr then Inr (DiagramN nl sl cl) else Inr (DiagramN nr sr cr))"
| "composeHorizontally (Diagram0 gl) (DiagramN nr sr cr) =
     (if nr = Num 0 then Inl OutsideModel
      else if numGt (Num 0) nr then Inr (Diagram0 gl) else Inr (DiagramN nr sr cr))"
| "composeHorizontally (DiagramN nl sl cl) (Diagram0 gr) =
     (if nl = Num 0 then Inl OutsideModel
      else if numGt nl (Num 0) then Inr (DiagramN nl sl cl) else Inr (Diagram0 gr))"

fun composeVertically :: "diagram \<Rightarrow> diagram \<Rightarrow> error + diagram" where
  "composeVertically (DiagramN nl sl cl) (DiagramN nr sr cr) =
     (if nl = Num 0 \<or> nr = Num 0
      then Inl (Error ''Cannot vertically compose 0-dimensional diagrams'')
      else Inr (DiagramN nl sl (cl @ cr)))"
| "composeVertically left right =
     Inl (Error ''Cannot vertically compose 0-dimensional diagrams'')"

definition composeByWhiskering :: "diagram \<Rightarrow> diagram \<Rightarrow> error + diagram" where
  "composeByWhiskering left right =
     (let higherDim = (if numGt (dimensionD left) (dimensionD right) then left else right)
      in case higherDim of
           DiagramN n src cs \<Rightarrow> Inr (DiagramN n src cs)
         | Diagram0 g \<Rightarrow> Inl OutsideModel)"

definition composeDiagrams :: "diagram \<Rightarrow> diagram \<Rightarrow> error + diagram" where
  "composeDiagrams left right =
     (if \<not> isValidDiagram left \<or> \<not> isValidDiagram right
      then Inl (Error ''Cannot compose invalid diagram structures'')
      else
        bindE (validateDiagramComposition left right) (\<lambda>compositionErrors.
        bindE (isEmptyDiagram left) (\<lambda>leftEmpty.
        if leftEmpty then Inr right
        else
          bindE (isEmptyDiagram right) (\<lambda>rightEmpty.
          if rightEmpty then Inr left
          else (case getCompositionType left right of
                  Horizontal \<Rightarrow> composeHorizontally left right
                | Vertical \<Rightarrow> composeVertically left right
                | Whiskering \<Rightarrow> composeByWhiskering left right
                | Invalid \<Rightarrow>
                    Inl (Error ''Diagrams cannot be composed: incompatible structures''))))))"

definition composeRewrites :: "rewrite \<Rightarrow> rewrite \<Rightarrow> error + rewrite" where
  "composeRewrites left right =
     (if \<not> isValidRewrite left \<or> \<not> isValidRewrite right
      then Inl (Error ''Cannot compose invalid rewrites'')
      else if isIdentity left then Inr right
      else if isIdentity right then Inr left
      else if dimensionR left = Num 0 \<and> dimensionR right = Num 0
      then
        bindE (idOf (targetR left)) (\<lambda>t.
        bindE (idOf (sourceR right)) (\<lambda>s.
        if t \<noteq> s
        then Inl (Error ''Generator rewrites are not composable: target/source mismatch'')
        else (case (sourceR left, targetR right) of
                (Some ls, Some rt) \<Rightarrow> Inr (createGeneratorRewrite ls rt)
              | _ \<Rightarrow> Inl OutsideModel)))
      else if dimensionR left = Num 0 \<and> numGt (dimensionR right) (Num 0) then Inr right
      else if numGt (dimensionR left) (Num 0) \<and> dimensionR right = Num 0 then Inr left
      else if numGt (dimensionR left) (Num 1) \<and> numGt (dimensionR right) (Num 1) then Inr left
      else Inr left)"

section \<open>Contraction (engine/contraction.ts)\<close>

fun contractRewrite :: "rewrite \<Rightarrow> error + rewrite"
  and contractCone :: "cone \<Rightarrow> error + cone"
  and contractCospan :: "cospan \<Rightarrow> error + cospan" where
  "contractRewrite (Rewrite0 s t) =
     (if \<not> isValidRewrite (Rewrite0 s t) then Inl (Error ''Invalid rewrite structure'')
      else Inr (Rewrite0 s t))"
| "contractRewrite RewriteI = Inr RewriteI"
| "contractRewrite (RewriteN n cs) =
     (if \<not> isValidRewrite (RewriteN n cs) then Inl (Error ''Invalid rewrite structure'')
      else if n = Num 0 \<or> n = Num 1 then Inr (RewriteN n cs)
      else bindE (mapE contractCone cs) (\<lambda>contractedCones. Inr (RewriteN n contractedCones)))"
| "contractCone (Cone i src tgt sl) =
     bindE (mapE contractCospan src) (\<lambda>contractedSource.
     bindE (contractCospan tgt) (\<lambda>contractedTarget.
     bindE (mapE contractRewrite sl) (\<lambda>contractedSlices.
     Inr (Cone i contractedSource contractedTarget contractedSlices))))"
| "contractCospan (Cospan f b) =
     (if \<not> isValidCospan (Cospan f b) then Inl (Error ''Invalid cospan structure'')
      else if dimensionR f = Num 1 \<and> dimensionR b = Num 1 then Inr (Cospan f b)
      else if dimensionR f = Num 0 \<and> dimensionR b = Num 0 then Inr (Cospan f b)
      else
        bindE (contractRewrite f) (\<lambda>f'.
        bindE (contractRewrite b) (\<lambda>b'.
        Inr (Cospan f' b'))))"

text \<open>
  \<open>checkCycles\<close> inside \<open>contractDiagram\<close>: one message for both tests; as above
  only the depth test can fire on a tree-shaped value, and the walk stops at the first
  level whose dimension is not greater than 0.
\<close>

fun checkCyclesC :: "diagram \<Rightarrow> nat \<Rightarrow> error option" where
  "checkCyclesC (Diagram0 g) depth =
     (if depth > MAX_DEPTH then Some (Error ''Cyclic reference detected in diagram'')
      else None)"
| "checkCyclesC (DiagramN n src cs) depth =
     (if depth > MAX_DEPTH then Some (Error ''Cyclic reference detected in diagram'')
      else if numGt n (Num 0) then checkCyclesC src (depth + 1)
      else None)"

fun contractDiagram :: "diagram \<Rightarrow> error + diagram" where
  "contractDiagram (Diagram0 g) =
     (if \<not> isValidDiagram (Diagram0 g) then Inl (Error ''Invalid diagram structure'')
      else case checkCyclesC (Diagram0 g) 0 of
        Some e \<Rightarrow> Inl e
      | None \<Rightarrow> Inr (Diagram0 g))"
| "contractDiagram (DiagramN n src cs) =
     (if \<not> isValidDiagram (DiagramN n src cs) then Inl (Error ''Invalid diagram structure'')
      else case checkCyclesC (DiagramN n src cs) 0 of
        Some e \<Rightarrow> Inl e
      | None \<Rightarrow>
          if n = Num 0 then Inr (DiagramN n src cs)
          else
            bindE (contractDiagram src) (\<lambda>contractedSource.
            bindE (mapE (\<lambda>c. if isValidCospan c then contractCospan c else Inr c) cs)
              (\<lambda>contractedCospans.
            Inr (DiagramN n contractedSource contractedCospans))))"

section \<open>Axiom and validation framework (axioms/validation.ts)\<close>

datatype category = Structural | CartesianCat | CocartesianCat

text \<open>
  A validator is a caller-supplied function \<open>Diagram => NPRValidationError[]\<close> that
  may throw: \<open>Inl\<close> is the thrown value.
\<close>

record NPRAxiom =
  idA :: string
  name :: string
  description :: string
  category :: category
  validator :: "diagram \<Rightarrow> error + NPRValidationError list"

text \<open>
  \<open>AxiomRegistry\<close> wraps a \<open>Map<string, NPRAxiom>\<close>: an association list in
  insertion order. \<open>Map.set\<close> on a key that is present keeps its position; this is
  \<open>AList.update\<close>.
\<close>

type_synonym AxiomRegistry = "(string \<times> NPRAxiom) list"

definition hasAxiom :: "AxiomRegistry \<Rightarrow> string \<Rightarrow> bool" where
  "hasAxiom registry i = (map_of registry i \<noteq> None)"

definition register :: "NPRAxiom \<Rightarrow> AxiomRegistry \<Rightarrow> error + AxiomRegistry" where
  "register axiom registry =
     (if hasAxiom registry (idA axiom)
      then Inl (Error (''Axiom '' @ idA axiom @ '' is already registered''))
      else Inr (AList.update (idA axiom) axiom registry))"

definition getAxiom :: "AxiomRegistry \<Rightarrow> string \<Rightarrow> NPRAxiom option" where
  "getAxiom registry i = map_of registry i"

definition getAllAxioms :: "AxiomRegistry \<Rightarrow> NPRAxiom list" where
  "getAllAxioms registry = map snd registry"

record ValidationReport =
  diagramOf :: diagram
  axiomResults :: "(string \<times> (NPRValidationError list \<times> NPRValidationError list)) list"

definition addAxiomResult ::
    "string \<Rightarrow> NPRValidationError list \<Rightarrow> NPRValidationError list
      \<Rightarrow> ValidationReport \<Rightarrow> ValidationReport" where
  "addAxiomResult axiomId errors warnings report =
     report\<lparr>axiomResults := AList.update axiomId (errors, warnings) (axiomResults report)\<rparr>"

definition getAxiomResult ::
    "ValidationReport \<Rightarrow> string
      \<Rightarrow> (NPRValidationError list \<times> NPRValidationError list) option" where
  "getAxiomResult report axiomId = map_of (axiomResults report) axiomId"

definition getValidatedAxioms :: "ValidationReport \<Rightarrow> string list" where
  "getValidatedAxioms report = map fst (axiomResults report)"

definition getAllErrors :: "ValidationReport \<Rightarrow> NPRValidationError list" where
  "getAllErrors report = concat (map (\<lambda>r. fst (snd r)) (axiomResults report))"

definition getAllWarnings :: "ValidationReport \<Rightarrow> NPRValidationError list" where
  "getAllWarnings report = concat (map (\<lambda>r. snd (snd r)) (axiomResults report))"

definition isValidReport :: "ValidationReport \<Rightarrow> bool" where
  "isValidReport report = (length (getAllErrors report) = 0)"

text \<open>
  The body of the loop of \<open>validateAllAxioms\<close> for one axiom: the \<open>try\<close> block sorts
  the validator's results by severity, the \<open>catch\<close> block records the thrown value.
  The only call inside \<open>try\<close> that can throw is the validator itself, so \<open>errors\<close> is
  still empty when \<open>catch\<close> runs.
\<close>

definition runAxiom ::
    "NPRAxiom \<Rightarrow> diagram \<Rightarrow> NPRValidationError list \<times> NPRValidationError list" where
  "runAxiom axiom d =
     (case validator axiom d of
        Inr validationResults \<Rightarrow>
          (filter (\<lambda>r. severity r = SevError) validationResults,
           filter (\<lambda>r. severity r = SevWarning) validationResults)
      | Inl thrown \<Rightarrow>
          ([\<lparr>code = ''AXIOM_VALIDATION_ERROR'',
             message = ''Error validating axiom '' @ idA axiom @ '': '' @
               (case thrown of Error m \<Rightarrow> m | _ \<Rightarrow> ''Unknown error''),
             severity = SevError, location = None\<rparr>], []))"

fun validateLoop :: "diagram \<Rightarrow> NPRAxiom list \<Rightarrow> ValidationReport \<Rightarrow> ValidationReport" where
  "validateLoop d [] report = report"
| "validateLoop d (axiom # rest) report =
     validateLoop d rest
       (addAxiomResult (idA axiom) (fst (runAxiom axiom d)) (snd (runAxiom axiom d)) report)"

definition validateAllAxioms :: "diagram \<Rightarrow> AxiomRegistry \<Rightarrow> ValidationReport" where
  "validateAllAxioms d registry =
     (let report = \<lparr>diagramOf = d, axiomResults = []\<rparr>
      in if \<not> isValidDiagram d
         then addAxiomResult ''basic-structure''
                [\<lparr>code = ''INVALID_DIAGRAM_STRUCTURE'',
                  message = ''Diagram does not follow valid zigzag structure'',
                  severity = SevError, location = None\<rparr>] [] report
         else validateLoop d (getAllAxioms registry) report)"

text \<open>
  \<open>optimizeValidationOrder\<close> reads \<open>diagram.generator.color\<close> when
  \<open>diagram.dimension === 0\<close>, without validating the diagram first.
\<close>

definition optimizeValidationOrder :: "NPRAxiom list \<Rightarrow> diagram \<Rightarrow> error + NPRAxiom list" where
  "optimizeValidationOrder axioms d =
     (let structural = filter (\<lambda>a. category a = Structural) axioms;
          cartesian = filter (\<lambda>a. category a = CartesianCat) axioms;
          cocartesian = filter (\<lambda>a. category a = CocartesianCat) axioms
      in if dimensionD d = Num 0
         then (case generatorD d of
                 None \<Rightarrow> Inl (typeError ''color'')
               | Some g \<Rightarrow>
                   if color g = Some Cartesian
                   then Inr (structural @ cartesian @ cocartesian)
                   else if color g = Some Cocartesian
                   then Inr (structural @ cocartesian @ cartesian)
                   else Inr (structural @ cartesian @ cocartesian))
         else Inr (structural @ cartesian @ cocartesian))"

section \<open>Structural validator on untyped values (types/diagram.ts, types/rewrite.ts)\<close>

text \<open>
  The validators take \<open>any\<close>. To speak about malformed and cyclic input, a JavaScript
  value is a primitive or a reference into a heap of objects and arrays; an object is its
  list of own fields, plain data: reading a field runs no accessor and no proxy trap, so
  the read itself cannot throw. A call that recurses without end never returns: the engine
  aborts it with a RangeError when the stack is exhausted. Such a call is the value
  \<open>None\<close> of the functions below; \<open>Some b\<close> is a normal return of \<open>b\<close>. The
  validators contain no \<open>throw\<close>, and they read a field only of a value that passed
  the test \<open>v && typeof v === 'object'\<close>, so no other outcome exists. The stack itself
  is not bounded here: a real engine also aborts on an acyclic value nested deeper than its
  stack allows.
\<close>

datatype jsval = JUndefined | JNull | JBool bool | JNum number | JStr string | JRef nat

datatype jsobj = JObject "(string \<times> jsval) list" | JArray "jsval list"

type_synonym heap = "nat \<Rightarrow> jsobj option"

text \<open>\<open>v && typeof v === 'object'\<close>: true of objects and arrays only.\<close>

definition isObjectV :: "heap \<Rightarrow> jsval \<Rightarrow> bool" where
  "isObjectV h v = (case v of JRef a \<Rightarrow> h a \<noteq> None | _ \<Rightarrow> False)"

definition isArrayV :: "heap \<Rightarrow> jsval \<Rightarrow> bool" where
  "isArrayV h v =
     (case v of JRef a \<Rightarrow> (case h a of Some (JArray xs) \<Rightarrow> True | _ \<Rightarrow> False) | _ \<Rightarrow> False)"

definition elems :: "heap \<Rightarrow> jsval \<Rightarrow> jsval list" where
  "elems h v =
     (case v of JRef a \<Rightarrow> (case h a of Some (JArray xs) \<Rightarrow> xs | _ \<Rightarrow> []) | _ \<Rightarrow> [])"

text \<open>\<open>v.k\<close> on an object; a field that is absent reads as \<open>undefined\<close>.\<close>

definition field :: "heap \<Rightarrow> jsval \<Rightarrow> string \<Rightarrow> jsval" where
  "field h v k =
     (case v of
        JRef a \<Rightarrow>
          (case h a of
             Some (JObject fs) \<Rightarrow> (case map_of fs k of Some x \<Rightarrow> x | None \<Rightarrow> JUndefined)
           | _ \<Rightarrow> JUndefined)
      | _ \<Rightarrow> JUndefined)"

definition isValidGeneratorH :: "heap \<Rightarrow> jsval \<Rightarrow> bool" where
  "isValidGeneratorH h g =
     (if \<not> isObjectV h g then False
      else if \<not> (case field h g ''id'' of JStr s \<Rightarrow> s \<noteq> [] | _ \<Rightarrow> False) then False
      else if field h g ''label'' \<noteq> JUndefined
              \<and> \<not> (case field h g ''label'' of JStr s \<Rightarrow> True | _ \<Rightarrow> False) then False
      else if field h g ''color'' \<noteq> JUndefined
      then (if field h g ''color'' \<noteq> JStr ''cartesian''
               \<and> field h g ''color'' \<noteq> JStr ''cocartesian'' then False else True)
      else True)"

partial_function (option) isValidDiagramH :: "heap \<Rightarrow> jsval \<Rightarrow> bool option" where
  "isValidDiagramH h v =
     (if \<not> isObjectV h v then Some False
      else (case field h v ''dimension'' of
              JNum n \<Rightarrow>
                if n = Num 0 then Some (isValidGeneratorH h (field h v ''generator''))
                else if numLt n (Num 0) then Some False
                else Option.bind (isValidDiagramH h (field h v ''source'')) (\<lambda>sourceOk.
                     if \<not> sourceOk then Some False
                     else if \<not> isArrayV h (field h v ''cospans'') then Some False
                     else Some True)
            | _ \<Rightarrow> Some False))"

text \<open>
  \<open>isValidRewrite\<close>, \<open>isValidCospan\<close>, \<open>isValidCone\<close> and the three
  \<open>every\<close> loops call each other; they are one function on the call to make.
\<close>

datatype vtask =
    TRewrite jsval | TCospan jsval | TCone jsval
  | TEveryCone "jsval list" | TEveryCospan "jsval list" | TEveryRewrite "jsval list"

definition numOf :: "jsval \<Rightarrow> number option" where
  "numOf v = (case v of JNum n \<Rightarrow> Some n | _ \<Rightarrow> None)"

text \<open>
  \<open>a && b\<close> on calls that may fail to return: \<open>b\<close> is only consulted when \<open>a\<close>
  returned true.
\<close>

definition andThen :: "bool option \<Rightarrow> bool option \<Rightarrow> bool option" where
  "andThen a b = Option.bind a (\<lambda>ok. if \<not> ok then Some False else b)"

lemma andThen_mono [partial_function_mono]:
  "mono_option A \<Longrightarrow> mono_option B \<Longrightarrow> mono_option (\<lambda>f. andThen (A f) (B f))"
  unfolding andThen_def by (rule bind_mono) (auto intro!: partial_function_mono)

text \<open>
  The bodies of \<open>isValidRewrite\<close>, \<open>isValidCospan\<close> and \<open>isValidCone\<close>, with the
  outcome of each recursive call as a parameter; a call that is not reached does not matter.
\<close>

definition isValidRewriteBody :: "heap \<Rightarrow> jsval \<Rightarrow> bool option \<Rightarrow> bool option" where
  "isValidRewriteBody h rewrite conesOk =
     (if \<not> isObjectV h rewrite then Some False
      else (case numOf (field h rewrite ''dimension'') of
              None \<Rightarrow> Some False
            | Some n \<Rightarrow>
                if n = Num 0
                then Some (isValidGeneratorH h (field h rewrite ''source'')
                           \<and> isValidGeneratorH h (field h rewrite ''target''))
                else if n = Num 1 then Some (field h rewrite ''identity'' = JBool True)
                else if numLt n (Num 0) then Some False
                else if \<not> isArrayV h (field h rewrite ''cones'') then Some False
                else conesOk))"

definition isValidCospanBody ::
    "heap \<Rightarrow> jsval \<Rightarrow> bool option \<Rightarrow> bool option \<Rightarrow> bool option" where
  "isValidCospanBody h cospan forwardOk backwardOk =
     (if \<not> isObjectV h cospan then Some False
      else andThen forwardOk backwardOk)"

definition isValidConeBody ::
    "heap \<Rightarrow> jsval \<Rightarrow> bool option \<Rightarrow> bool option \<Rightarrow> bool option \<Rightarrow> bool option" where
  "isValidConeBody h cone targetOk sourceOk slicesOk =
     (if \<not> isObjectV h cone then Some False
      else (case numOf (field h cone ''index'') of
              None \<Rightarrow> Some False
            | Some i \<Rightarrow>
                if numLt i (Num 0) then Some False
                else if \<not> isArrayV h (field h cone ''source'') then Some False
                else andThen targetOk
                       (if \<not> isArrayV h (field h cone ''slices'') then Some False
                        else andThen sourceOk slicesOk)))"

lemma isValidRewriteBody_mono [partial_function_mono]:
  "mono_option A \<Longrightarrow> mono_option (\<lambda>f. isValidRewriteBody h v (A f))"
  unfolding isValidRewriteBody_def
  by (cases "numOf (field h v ''dimension'')") (auto intro!: partial_function_mono)

lemma isValidCospanBody_mono [partial_function_mono]:
  "mono_option A \<Longrightarrow> mono_option B \<Longrightarrow> mono_option (\<lambda>f. isValidCospanBody h v (A f) (B f))"
  unfolding isValidCospanBody_def by (auto intro!: partial_function_mono)

lemma isValidConeBody_mono [partial_function_mono]:
  "mono_option A \<Longrightarrow> mono_option B \<Longrightarrow> mono_option C \<Longrightarrow>
   mono_option (\<lambda>f. isValidConeBody h v (A f) (B f) (C f))"
  unfolding isValidConeBody_def
  by (cases "numOf (field h v ''index'')") (auto intro!: partial_function_mono)

partial_function (option) validH :: "heap \<Rightarrow> vtask \<Rightarrow> bool option" where
  "validH h t =
     (case t of
        TRewrite v \<Rightarrow>
          isValidRewriteBody h v (validH h (TEveryCone (elems h (field h v ''cones''))))
      | TCospan v \<Rightarrow>
          isValidCospanBody h v (validH h (TRewrite (field h v ''forward'')))
                                (validH h (TRewrite (field h v ''backward'')))
      | TCone v \<Rightarrow>
          isValidConeBody h v (validH h (TCospan (field h v ''target'')))
                              (validH h (TEveryCospan (elems h (field h v ''source''))))
                              (validH h (TEveryRewrite (elems h (field h v ''slices''))))
      | TEveryCone xs \<Rightarrow>
          (case xs of
             [] \<Rightarrow> Some True
           | x # rest \<Rightarrow> andThen (validH h (TCone x)) (validH h (TEveryCone rest)))
      | TEveryCospan xs \<Rightarrow>
          (case xs of
             [] \<Rightarrow> Some True
           | x # rest \<Rightarrow> andThen (validH h (TCospan x)) (validH h (TEveryCospan rest)))
      | TEveryRewrite xs \<Rightarrow>
          (case xs of
             [] \<Rightarrow> Some True
           | x # rest \<Rightarrow> andThen (validH h (TRewrite x)) (validH h (TEveryRewrite rest))))"




section \<open>Notions used to state the properties\<close>

text \<open>Number of \<open>source\<close> steps from a diagram down to its dimension-0 root.\<close>

fun chainDepth :: "diagram \<Rightarrow> nat" where
  "chainDepth (Diagram0 g) = 0"
| "chainDepth (DiagramN n src cs) = Suc (chainDepth src)"

text \<open>
  Number of consecutive levels of dimension greater than 0 at the top of the source chain:
  the number of \<open>source\<close> steps that the depth guards take from a diagram.
\<close>

fun posRun :: "diagram \<Rightarrow> nat" where
  "posRun (Diagram0 g) = 0"
| "posRun (DiagramN n src cs) = (if numGt n (Num 0) then Suc (posRun src) else 0)"

text \<open>
  Nowhere along the source chain do more than \<open>MAX_DEPTH\<close> consecutive levels have a
  dimension greater than 0. When every level has (as with integral dimensions), this says
  that the chain has at most \<open>MAX_DEPTH\<close> levels.
\<close>

fun depthOK :: "diagram \<Rightarrow> bool" where
  "depthOK (Diagram0 g) = True"
| "depthOK (DiagramN n src cs) = (posRun (DiagramN n src cs) \<le> MAX_DEPTH \<and> depthOK src)"

text \<open>The generator of the dimension-0 root reached by repeated \<open>.source\<close>.\<close>

fun rootGenerator :: "diagram \<Rightarrow> generator" where
  "rootGenerator (Diagram0 g) = g"
| "rootGenerator (DiagramN n src cs) = rootGenerator src"

text \<open>A rewrite of dimension 0 or 1, and a cospan both of whose legs are such.\<close>

definition lowDim :: "rewrite \<Rightarrow> bool" where
  "lowDim r = (dimensionR r = Num 0 \<or> dimensionR r = Num 1)"

definition lowLeg :: "cospan \<Rightarrow> bool" where
  "lowLeg c = (lowDim (forward c) \<and> lowDim (backward c))"

text \<open>Every structurally valid cospan of the diagram and of its sources is \<open>lowLeg\<close>.\<close>

fun lowLegs :: "diagram \<Rightarrow> bool" where
  "lowLegs (Diagram0 g) = True"
| "lowLegs (DiagramN n src cs) =
     (lowLegs src \<and> list_all (\<lambda>c. isValidCospan c \<longrightarrow> lowLeg c) cs)"

text \<open>
  A tower of \<open>k\<close> levels with empty cospan lists over a base diagram, built the way the
  test suite builds its deeply nested structure; and a tower all of whose levels have the
  dimension \<open>NaN\<close>.
\<close>

fun tower :: "nat \<Rightarrow> diagram \<Rightarrow> diagram" where
  "tower 0 base = base"
| "tower (Suc k) base = DiagramN (Num (of_nat (Suc k))) (tower k base) []"

fun nanTower :: "nat \<Rightarrow> diagram \<Rightarrow> diagram" where
  "nanTower 0 base = base"
| "nanTower (Suc k) base = DiagramN NaN (nanTower k base) []"

text \<open>The generators of the specification's concrete scenarios.\<close>

definition genA :: generator where
  "genA = \<lparr>idG = ''a'', label = Some ''A'', color = None\<rparr>"

definition genB :: generator where
  "genB = \<lparr>idG = ''b'', label = Some ''B'', color = None\<rparr>"

text \<open>A registry as \<open>register\<close> builds it: keys are the axioms' ids, without repetition.\<close>

definition registryOK :: "AxiomRegistry \<Rightarrow> bool" where
  "registryOK registry =
     (distinct (map fst registry) \<and> list_all (\<lambda>ka. fst ka = idA (snd ka)) registry)"

definition fixedR :: "rewrite \<Rightarrow> bool" where
  "fixedR r = (isValidRewrite r \<and> normalizeRewrite r = Inr r)"

definition fixedCone :: "cone \<Rightarrow> bool" where
  "fixedCone c = (isValidCone c \<and> normalizeCone c = Inr c)"

definition fixedCospan :: "cospan \<Rightarrow> bool" where
  "fixedCospan c = (isValidCospan c \<and> normalizeCospan c = Inr c)"

text \<open>A dimension-2 diagram with an inverse pair and a redundant cospan.\<close>

definition dW :: diagram where
  "dW = DiagramN (Num 2) (Diagram0 genA)
     [Cospan (Rewrite0 genA genB) (Rewrite0 genB genA), Cospan RewriteI RewriteI]"


definition stableR :: "rewrite \<Rightarrow> bool" where
  "stableR r = (isValidRewrite r \<and> contractRewrite r = Inr r)"

definition stableCone :: "cone \<Rightarrow> bool" where
  "stableCone c = (isValidCone c \<and> contractCone c = Inr c)"

definition stableCospan :: "cospan \<Rightarrow> bool" where
  "stableCospan c = (isValidCospan c \<and> contractCospan c = Inr c)"

text \<open>A dimension-2 diagram over a dimension-1 source, with a cone, and one invalid cospan.\<close>

definition dC :: diagram where
  "dC = DiagramN (Num 2) (DiagramN (Num 1) (Diagram0 genA) [Cospan RewriteI RewriteI])
     [Cospan (RewriteN (Num 2) [Cone (Num 0) [Cospan (Rewrite0 genA genB) (Rewrite0 genB genA)]
                (Cospan RewriteI RewriteI) [RewriteI]]) RewriteI,
      Cospan (RewriteN (Num 1) []) RewriteI]"

text \<open>Sample axioms: one whose validator throws, one that reports an error, a note and a
  warning, one that reports nothing; and a registry holding them.\<close>

definition throwingAxiom :: NPRAxiom where
  "throwingAxiom = \<lparr>idA = ''bad'', name = ''Bad'', description = ''throws'',
     category = CartesianCat, validator = (\<lambda>d. Inl (Error ''boom''))\<rparr>"

definition reportingAxiom :: NPRAxiom where
  "reportingAxiom = \<lparr>idA = ''rep'', name = ''Rep'', description = ''reports'',
     category = CocartesianCat,
     validator = (\<lambda>d. Inr [\<lparr>code = ''E1'', message = ''an error'', severity = SevError, location = None\<rparr>,
                           \<lparr>code = ''I1'', message = ''a note'', severity = SevInfo, location = None\<rparr>,
                           \<lparr>code = ''W1'', message = ''a warning'', severity = SevWarning, location = None\<rparr>])\<rparr>"

definition silentAxiom :: NPRAxiom where
  "silentAxiom = \<lparr>idA = ''ok'', name = ''Ok'', description = ''passes'',
     category = Structural, validator = (\<lambda>d. Inr [])\<rparr>"

definition sampleRegistry :: AxiomRegistry where
  "sampleRegistry = [(''bad'', throwingAxiom), (''rep'', reportingAxiom), (''ok'', silentAxiom)]"

text \<open>A cocartesian generator.\<close>

definition genCo :: generator where
  "genCo = \<lparr>idG = ''k'', label = None, color = Some Cocartesian\<rparr>"








text \<open>
  When a heap value represents a typed value: field by field, with no field of another
  shape present.
\<close>

definition optStr :: "string option \<Rightarrow> jsval" where
  "optStr s = (case s of None \<Rightarrow> JUndefined | Some x \<Rightarrow> JStr x)"

definition colorVal :: "polarity option \<Rightarrow> jsval" where
  "colorVal c =
     (case c of None \<Rightarrow> JUndefined
      | Some Cartesian \<Rightarrow> JStr ''cartesian''
      | Some Cocartesian \<Rightarrow> JStr ''cocartesian'')"

definition repGenerator :: "heap \<Rightarrow> jsval \<Rightarrow> generator \<Rightarrow> bool" where
  "repGenerator h v g =
     (isObjectV h v \<and> field h v ''id'' = JStr (idG g)
      \<and> field h v ''label'' = optStr (label g) \<and> field h v ''color'' = colorVal (color g))"

lemma list_all2_cong [fundef_cong]:
  "xs = xs' \<Longrightarrow> ys = ys' \<Longrightarrow> (\<And>x y. x \<in> set xs' \<Longrightarrow> y \<in> set ys' \<Longrightarrow> P x y = Q x y) \<Longrightarrow>
   list_all2 P xs ys = list_all2 Q xs' ys'"
  by (rule list.rel_cong)

fun repRewrite :: "heap \<Rightarrow> jsval \<Rightarrow> rewrite \<Rightarrow> bool"
  and repCone :: "heap \<Rightarrow> jsval \<Rightarrow> cone \<Rightarrow> bool"
  and repCospan :: "heap \<Rightarrow> jsval \<Rightarrow> cospan \<Rightarrow> bool" where
  "repRewrite h v (Rewrite0 s t) =
     (isObjectV h v \<and> field h v ''dimension'' = JNum (Num 0)
      \<and> repGenerator h (field h v ''source'') s \<and> repGenerator h (field h v ''target'') t)"
| "repRewrite h v RewriteI =
     (isObjectV h v \<and> field h v ''dimension'' = JNum (Num 1)
      \<and> field h v ''identity'' = JBool True)"
| "repRewrite h v (RewriteN n cs) =
     (isObjectV h v \<and> field h v ''dimension'' = JNum n
      \<and> field h v ''source'' = JUndefined \<and> field h v ''target'' = JUndefined
      \<and> field h v ''identity'' = JUndefined
      \<and> isArrayV h (field h v ''cones'')
      \<and> list_all2 (\<lambda>x c. repCone h x c) (elems h (field h v ''cones'')) cs)"
| "repCone h v (Cone i src tgt sl) =
     (isObjectV h v \<and> field h v ''index'' = JNum i
      \<and> isArrayV h (field h v ''source'')
      \<and> list_all2 (\<lambda>x c. repCospan h x c) (elems h (field h v ''source'')) src
      \<and> repCospan h (field h v ''target'') tgt
      \<and> isArrayV h (field h v ''slices'')
      \<and> list_all2 (\<lambda>x r. repRewrite h x r) (elems h (field h v ''slices'')) sl)"
| "repCospan h v (Cospan f b) =
     (isObjectV h v \<and> repRewrite h (field h v ''forward'') f
      \<and> repRewrite h (field h v ''backward'') b)"

fun repDiagram :: "heap \<Rightarrow> jsval \<Rightarrow> diagram \<Rightarrow> bool" where
  "repDiagram h v (Diagram0 g) =
     (isObjectV h v \<and> field h v ''dimension'' = JNum (Num 0)
      \<and> repGenerator h (field h v ''generator'') g)"
| "repDiagram h v (DiagramN n src cs) =
     (isObjectV h v \<and> field h v ''dimension'' = JNum n
      \<and> field h v ''generator'' = JUndefined
      \<and> repDiagram h (field h v ''source'') src
      \<and> isArrayV h (field h v ''cospans'')
      \<and> list_all2 (\<lambda>x c. repCospan h x c) (elems h (field h v ''cospans'')) cs)"


section \<open>Properties\<close>

subsection \<open>Normalization\<close>

lemma bindE_simps [simp]: "bindE (Inl e) f = Inl e" "bindE (Inr x) f = f x"
  by (simp_all add: bindE_def)

lemma numEq_simps [simp]:
  "numEq (Num x) b = (b = Num x)" "numEq a (Num y) = (a = Num y)" "numEq NaN b = False"
  "numEq a NaN = False"
  by (auto simp: numEq_def)

lemma numGt_1: "numGt n (Num 1) \<Longrightarrow> n \<noteq> Num 0 \<and> n \<noteq> Num 1 \<and> \<not> numLt n (Num 0)"
  by (cases n) auto

lemma mapE_Inr:
  "(\<And>x. x \<in> set xs \<Longrightarrow> \<exists>y. f x = Inr y \<and> Q y) \<Longrightarrow>
   \<exists>ys. mapE f xs = Inr ys \<and> list_all Q ys \<and> length ys = length xs"
proof (induction xs)
  case Nil
  then show ?case by simp
next
  case (Cons x xs)
  then obtain y where y: "f x = Inr y" "Q y" by auto
  from Cons obtain ys where ys: "mapE f xs = Inr ys" "list_all Q ys" "length ys = length xs"
    by auto
  with y show ?case by simp
qed

lemma mapE_fixed: "(\<And>x. x \<in> set xs \<Longrightarrow> f x = Inr x) \<Longrightarrow> mapE f xs = Inr xs"
  by (induction xs) auto

lemma normalizeRewrite_fixed:
  "(isValidRewrite r \<longrightarrow> (\<exists>r'. normalizeRewrite r = Inr r' \<and> fixedR r' \<and> dimensionR r' = dimensionR r \<and> isIdentity r' = isIdentity r))"
  and normalizeCone_fixed: "(isValidCone c \<longrightarrow> (\<exists>c'. normalizeCone c = Inr c' \<and> fixedCone c'))"
  and normalizeCospan_fixed: "(isValidCospan p \<longrightarrow> (\<exists>p'. normalizeCospan p = Inr p' \<and> fixedCospan p' \<and>
       dimensionR (forward p') = dimensionR (forward p) \<and> dimensionR (backward p') = dimensionR (backward p) \<and>
       isIdentity (forward p') = isIdentity (forward p) \<and> isIdentity (backward p') = isIdentity (backward p)))"
proof (induction r and c and p rule: rewrite.induct cone.induct cospan.induct)
  case (Rewrite0 s t)
  then show ?case by (simp add: fixedR_def)
next
  case RewriteI
  then show ?case by (simp add: fixedR_def)
next
  case (RewriteN n cs)
  show ?case
  proof
    assume v: "isValidRewrite (RewriteN n cs)"
    then have n: "n \<noteq> Num 0" "n \<noteq> Num 1" "\<not> numLt n (Num 0)" and vc: "list_all isValidCone cs"
      by (auto split: if_splits)
    show "\<exists>r'. normalizeRewrite (RewriteN n cs) = Inr r' \<and> fixedR r' \<and>
        dimensionR r' = dimensionR (RewriteN n cs) \<and> isIdentity r' = isIdentity (RewriteN n cs)"
    proof (cases "numGt n (Num 1)")
      case True
      have "\<And>x. x \<in> set cs \<Longrightarrow> \<exists>y. normalizeCone x = Inr y \<and> fixedCone y"
        using RewriteN vc by (auto simp: list_all_iff)
      from mapE_Inr[of cs normalizeCone fixedCone, OF this]
      obtain cs' where cs': "mapE normalizeCone cs = Inr cs'" "list_all fixedCone cs'"
        by blast
      have "mapE normalizeCone cs' = Inr cs'"
        using cs'(2) by (intro mapE_fixed) (auto simp: list_all_iff fixedCone_def)
      moreover have "list_all isValidCone cs'"
        using cs'(2) by (auto simp: list_all_iff fixedCone_def)
      ultimately have "fixedR (RewriteN n cs')"
        using n True by (simp add: fixedR_def)
      then show ?thesis using v True cs'(1) by simp
    next
      case False
      then have "fixedR (RewriteN n cs)" using n vc by (simp add: fixedR_def)
      then show ?thesis using n vc False by simp
    qed
  qed
next
  case (Cone i src tgt sl)
  show ?case
  proof
    assume v: "isValidCone (Cone i src tgt sl)"
    then have i: "\<not> numLt i (Num 0)" and vt: "isValidCospan tgt" and vs: "list_all isValidCospan src"
      and vl: "list_all isValidRewrite sl"
      by (auto split: if_splits)
    have "\<And>x. x \<in> set src \<Longrightarrow> \<exists>y. normalizeCospan x = Inr y \<and> fixedCospan y"
      using Cone(1) vs by (fastforce simp: list_all_iff)
    from mapE_Inr[of src normalizeCospan fixedCospan, OF this]
    obtain src' where src': "mapE normalizeCospan src = Inr src'" "list_all fixedCospan src'"
      by blast
    obtain tgt' where tgt': "normalizeCospan tgt = Inr tgt'" "fixedCospan tgt'"
      using Cone(2) vt by blast
    have "\<And>x. x \<in> set sl \<Longrightarrow> \<exists>y. normalizeRewrite x = Inr y \<and> fixedR y"
      using Cone(3) vl by (fastforce simp: list_all_iff)
    from mapE_Inr[of sl normalizeRewrite fixedR, OF this]
    obtain sl' where sl': "mapE normalizeRewrite sl = Inr sl'" "list_all fixedR sl'"
      by blast
    have f1: "mapE normalizeCospan src' = Inr src'"
      using src'(2) by (intro mapE_fixed) (auto simp: list_all_iff fixedCospan_def)
    have f2: "mapE normalizeRewrite sl' = Inr sl'"
      using sl'(2) by (intro mapE_fixed) (auto simp: list_all_iff fixedR_def)
    have v1: "list_all isValidCospan src'"
      using src'(2) by (auto simp: list_all_iff fixedCospan_def)
    have v2: "list_all isValidRewrite sl'"
      using sl'(2) by (auto simp: list_all_iff fixedR_def)
    have "fixedCone (Cone i src' tgt' sl')"
      using i f1 f2 v1 v2 tgt'(2) by (simp add: fixedCone_def fixedCospan_def)
    then show "\<exists>c'. normalizeCone (Cone i src tgt sl) = Inr c' \<and> fixedCone c'"
      using src'(1) tgt'(1) sl'(1) by simp
  qed
next
  case (Cospan f b)
  show ?case
  proof
    assume v: "isValidCospan (Cospan f b)"
    then obtain f' b' where f': "normalizeRewrite f = Inr f'" "fixedR f'"
        "dimensionR f' = dimensionR f" "isIdentity f' = isIdentity f"
      and b': "normalizeRewrite b = Inr b'" "fixedR b'"
        "dimensionR b' = dimensionR b" "isIdentity b' = isIdentity b"
      using Cospan by auto
    have "fixedCospan (Cospan f' b')"
      using f'(2) b'(2) by (simp add: fixedCospan_def fixedR_def)
    then show "\<exists>p'. normalizeCospan (Cospan f b) = Inr p' \<and> fixedCospan p' \<and>
       dimensionR (forward p') = dimensionR (forward (Cospan f b)) \<and>
       dimensionR (backward p') = dimensionR (backward (Cospan f b)) \<and>
       isIdentity (forward p') = isIdentity (forward (Cospan f b)) \<and>
       isIdentity (backward p') = isIdentity (backward (Cospan f b))"
      using f' b' by simp
  qed
qed

text \<open>
  The depth guard of \<open>normalizeDiagram\<close> on any diagram, valid or not: it counts the
  levels of dimension greater than 0 at the top of the chain.
\<close>

lemma checkCycles_posRun:
  "checkCycles d k =
     (if k + posRun d > MAX_DEPTH
      then Some (Error ''Maximum normalization depth exceeded - possible cycle detected'')
      else None)"
proof (induction d arbitrary: k)
  case (Diagram0 g)
  then show ?case by simp
next
  case (DiagramN n src cs)
  show ?case using DiagramN.IH[of "k + 1"] by auto
qed

lemma posRun_chainDepth: "posRun d \<le> chainDepth d"
  by (induction d) auto

lemma chainDepth_depthOK: "chainDepth d \<le> MAX_DEPTH \<Longrightarrow> depthOK d"
proof (induction d)
  case (Diagram0 g)
  then show ?case by simp
next
  case (DiagramN n src cs)
  then have "depthOK src" by simp
  moreover have "posRun (DiagramN n src cs) \<le> MAX_DEPTH"
    using posRun_chainDepth[of "DiagramN n src cs"] DiagramN.prems by linarith
  ultimately show ?case by simp
qed

lemma normalizeCospan_valid:
  assumes "isValidCospan p"
  obtains p' where "normalizeCospan p = Inr p'" "isValidCospan p'"
    "normalizeCospan p' = Inr p'" "isRedundantCospan p' = isRedundantCospan p"
    "lowLeg p' = lowLeg p"
  using normalizeCospan_fixed[of p] assms
  by (auto simp: fixedCospan_def isRedundantCospan_def lowLeg_def lowDim_def)

lemma reduceRedundantCospans_filter:
  "reduceRedundantCospans cs = filter (\<lambda>c. isValidCospan c \<and> \<not> isRedundantCospan c) cs"
  by (induction cs) auto








text \<open>
  A structurally valid diagram that breaks the depth bound somewhere along its source chain
  makes \<open>normalizeDiagram\<close> raise the depth error, at the outermost level that breaks it.
\<close>

lemma normalizeDiagram_deep:
  "isValidDiagram d \<Longrightarrow> \<not> depthOK d \<Longrightarrow>
   normalizeDiagram d =
     Inl (Error ''Maximum normalization depth exceeded - possible cycle detected'')"
proof (induction d)
  case (Diagram0 g)
  then show ?case by simp
next
  case (DiagramN n src cs)
  from DiagramN.prems(1) have n: "n \<noteq> Num 0" and vs: "isValidDiagram src"
    by (auto split: if_splits)
  show ?case
  proof (cases "posRun (DiagramN n src cs) \<le> MAX_DEPTH")
    case True
    then have "\<not> depthOK src" using DiagramN.prems(2) by simp
    from DiagramN.IH[OF vs this] True DiagramN.prems(1) n show ?thesis
      by (simp add: checkCycles_posRun del: isValidDiagram.simps checkCycles.simps posRun.simps)
  next
    case False
    with DiagramN.prems(1) show ?thesis
      by (simp add: checkCycles_posRun del: isValidDiagram.simps checkCycles.simps posRun.simps)
  qed
qed

lemma normalizeDiagram_ok:
  "isValidDiagram d \<Longrightarrow> depthOK d \<Longrightarrow>
   \<exists>n. normalizeDiagram d = Inr n \<and> isValidDiagram n \<and> posRun n = posRun d \<and> depthOK n
       \<and> normalizeDiagram n = Inr n"
proof (induction d)
  case (Diagram0 g)
  then show ?case by (simp add: MAX_DEPTH_def)
next
  case (DiagramN k src cs)
  let ?d = "DiagramN k src cs"
  let ?g = "\<lambda>c. if isValidCospan c then normalizeCospan c else Inr c"
  let ?Q = "\<lambda>c'. isValidCospan c' \<longrightarrow> normalizeCospan c' = Inr c'"
  from DiagramN.prems have k: "k \<noteq> Num 0" "\<not> numLt k (Num 0)" and vs: "isValidDiagram src"
    and ds: "depthOK src" and pr: "posRun ?d \<le> MAX_DEPTH"
    by (auto split: if_splits)
  from DiagramN.IH[OF vs ds] obtain ns where ns: "normalizeDiagram src = Inr ns"
    "isValidDiagram ns" "posRun ns = posRun src" "depthOK ns" "normalizeDiagram ns = Inr ns"
    by blast
  have "\<And>c. c \<in> set cs \<Longrightarrow> \<exists>c'. ?g c = Inr c' \<and> ?Q c'"
  proof -
    fix c assume c: "c \<in> set cs"
    show "\<exists>c'. ?g c = Inr c' \<and> ?Q c'"
    proof (cases "isValidCospan c")
      case True
      from normalizeCospan_valid[OF True] obtain p' where p': "normalizeCospan c = Inr p'"
        "isValidCospan p'" "normalizeCospan p' = Inr p'"
        by metis
      then show ?thesis using True by auto
    next
      case False
      then show ?thesis by simp
    qed
  qed
  from mapE_Inr[of cs ?g ?Q, OF this] obtain ncs where ncs: "mapE ?g cs = Inr ncs"
    "list_all ?Q ncs" by blast
  let ?rcs = "reduceRedundantCospans ncs"
  let ?n = "DiagramN k ns ?rcs"
  have cc: "checkCycles ?d 0 = None"
    using pr by (simp add: checkCycles_posRun del: checkCycles.simps posRun.simps)
  have res: "normalizeDiagram ?d = Inr ?n"
    using DiagramN.prems(1) cc k ns(1) ncs(1) by (simp del: checkCycles.simps)
  have vn: "isValidDiagram ?n" using k ns(2) by simp
  have pn: "posRun ?n = posRun ?d" using ns(3) by simp
  have dn: "depthOK ?n" using pn pr ns(4) by (simp del: posRun.simps)
  have rprops: "\<And>c. c \<in> set ?rcs \<Longrightarrow> isValidCospan c \<and> \<not> isRedundantCospan c
      \<and> normalizeCospan c = Inr c"
    using ncs(2) by (auto simp: reduceRedundantCospans_filter list_all_iff)
  have m2: "mapE ?g ?rcs = Inr ?rcs"
    by (rule mapE_fixed) (simp add: rprops)
  have r2: "reduceRedundantCospans ?rcs = ?rcs"
    unfolding reduceRedundantCospans_filter by simp
  have cc2: "checkCycles ?n 0 = None"
    using pn pr by (simp add: checkCycles_posRun del: checkCycles.simps posRun.simps)
  have idem: "normalizeDiagram ?n = Inr ?n"
    using vn cc2 k ns(5) m2 r2 by (simp del: checkCycles.simps isValidDiagram.simps)
  show ?case using res vn pn dn idem by blast
qed


lemma tower_valid: "isValidDiagram (tower k b) = isValidDiagram b"
  by (induction k) auto

lemma tower_posRun: "posRun (tower k b) = k + posRun b"
  by (induction k) auto

lemma nanTower_facts:
  "isValidDiagram (nanTower k b) = isValidDiagram b"
  "depthOK (nanTower k b) = depthOK b"
  "chainDepth (nanTower k b) = k + chainDepth b"
  by (induction k) (auto simp: MAX_DEPTH_def)

lemma genA_valid: "isValidGenerator genA" "isValidGenerator genB"
  by (simp_all add: isValidGenerator_def genA_def genB_def)



lemma dW_facts: "isValidDiagram dW" "chainDepth dW \<le> MAX_DEPTH" "lowLegs dW" "depthOK dW"
  by (simp_all add: dW_def genA_valid MAX_DEPTH_def lowLeg_def lowDim_def)



text \<open>
  Claim C2: \<open>normalizeDiagram\<close> is idempotent. For every structurally valid diagram
  \<open>d\<close>, \<open>normalizeDiagram(normalizeDiagram(d))\<close> and \<open>normalizeDiagram(d)\<close> have
  the same outcome; whenever \<open>normalizeDiagram(d)\<close> returns a diagram, normalizing that
  diagram returns it again, structurally equal.
\<close>

theorem normalizeDiagram_idempotent:
  "isValidDiagram d \<Longrightarrow>
   bindE (normalizeDiagram d) normalizeDiagram = normalizeDiagram d
   \<and> (\<forall>n. normalizeDiagram d = Inr n \<longrightarrow> normalizeDiagram n = Inr n)"
proof (cases "depthOK d")
  case True
  assume "isValidDiagram d"
  from normalizeDiagram_ok[OF this True] show ?thesis by auto
next
  case False
  assume "isValidDiagram d"
  with False show ?thesis by (simp add: normalizeDiagram_deep)
qed

text \<open>Claim C2, witness: the redundant cospan is pruned once, and the result is stable.\<close>

theorem normalizeDiagram_idempotent_witness:
  "isValidDiagram dW
   \<and> normalizeDiagram dW =
       Inr (DiagramN (Num 2) (Diagram0 genA) [Cospan (Rewrite0 genA genB) (Rewrite0 genB genA)])
   \<and> normalizeDiagram
         (DiagramN (Num 2) (Diagram0 genA) [Cospan (Rewrite0 genA genB) (Rewrite0 genB genA)]) =
       Inr (DiagramN (Num 2) (Diagram0 genA) [Cospan (Rewrite0 genA genB) (Rewrite0 genB genA)])"
proof -
  have "normalizeDiagram dW =
       Inr (DiagramN (Num 2) (Diagram0 genA) [Cospan (Rewrite0 genA genB) (Rewrite0 genB genA)])"
    by (simp add: dW_def genA_valid MAX_DEPTH_def isRedundantCospan_def)
  then show ?thesis using normalizeDiagram_idempotent[OF dW_facts(1)] dW_facts(1) by simp
qed

subsection \<open>Term reduction and rewrite composition\<close>

text \<open>
  Claim C9: for generators \<open>A\<close> and \<open>B\<close> with distinct non-empty ids,
  \<open>reduceTerms\<close> applied to \<open>[generatorRewrite(A,B), generatorRewrite(B,A)]\<close>
  returns the empty list.
\<close>

theorem reduceTerms_cancels_inverse_pair:
  "idG A \<noteq> [] \<Longrightarrow> idG B \<noteq> [] \<Longrightarrow> idG A \<noteq> idG B \<Longrightarrow>
   reduceTerms [createGeneratorRewrite A B, createGeneratorRewrite B A] = Inr []"
  by (simp add: reduceTerms_def createGeneratorRewrite_def isValidGenerator_def areInverses_def)

text \<open>Claim C9, witness: the generators \<open>a\<close> and \<open>b\<close> of the concrete scenarios.\<close>

theorem reduceTerms_cancels_inverse_pair_witness:
  "idG genA \<noteq> [] \<and> idG genB \<noteq> [] \<and> idG genA \<noteq> idG genB
   \<and> reduceTerms [createGeneratorRewrite genA genB, createGeneratorRewrite genB genA] = Inr []"
proof -
  have h: "idG genA \<noteq> []" "idG genB \<noteq> []" "idG genA \<noteq> idG genB"
    by (simp_all add: genA_def genB_def)
  from reduceTerms_cancels_inverse_pair[OF h] h show ?thesis by simp
qed

text \<open>
  Claim C10: for valid rewrites \<open>left\<close> and \<open>right\<close> whose dimensions are both
  greater than 1, \<open>composeRewrites left right\<close> returns \<open>left\<close> unchanged, whatever
  the cones of either operand are.
\<close>

theorem composeRewrites_higher_returns_left:
  "isValidRewrite left \<Longrightarrow> isValidRewrite right \<Longrightarrow>
   numGt (dimensionR left) (Num 1) \<Longrightarrow> numGt (dimensionR right) (Num 1) \<Longrightarrow>
   composeRewrites left right = Inr left"
  by (cases left; cases right) (auto simp: composeRewrites_def dest: numGt_1)

text \<open>Claim C10, witness: a dimension-2 rewrite with one cone composed with a dimension-3 one.\<close>

theorem composeRewrites_higher_returns_left_witness:
  "isValidRewrite (RewriteN (Num 2) [Cone (Num 0) [] (Cospan RewriteI RewriteI) [RewriteI]])
   \<and> isValidRewrite (RewriteN (Num 3) [])
   \<and> numGt (dimensionR (RewriteN (Num 2) [Cone (Num 0) [] (Cospan RewriteI RewriteI) [RewriteI]]))
        (Num 1)
   \<and> numGt (dimensionR (RewriteN (Num 3) [])) (Num 1)
   \<and> composeRewrites (RewriteN (Num 2) [Cone (Num 0) [] (Cospan RewriteI RewriteI) [RewriteI]])
        (RewriteN (Num 3) []) =
       Inr (RewriteN (Num 2) [Cone (Num 0) [] (Cospan RewriteI RewriteI) [RewriteI]])"
proof -
  have h: "isValidRewrite (RewriteN (Num 2) [Cone (Num 0) [] (Cospan RewriteI RewriteI) [RewriteI]])"
    "isValidRewrite (RewriteN (Num 3) [])"
    "numGt (dimensionR (RewriteN (Num 2) [Cone (Num 0) [] (Cospan RewriteI RewriteI) [RewriteI]]))
       (Num 1)"
    "numGt (dimensionR (RewriteN (Num 3) [])) (Num 1)"
    by simp_all
  from composeRewrites_higher_returns_left[OF h] h show ?thesis by blast
qed

text \<open>
  Claim C4, as stated, fails on a mismatch: the error raised for the valid 0-dimensional
  rewrites \<open>a \<rightarrow> x1\<close> and \<open>y2 \<rightarrow> b\<close> carries a fixed message in which neither
  offending id (\<open>x1\<close>, \<open>y2\<close>) occurs.
\<close>

theorem composeRewrites_mismatch_counterexample:
  "isValidRewrite (Rewrite0 genA \<lparr>idG = ''x1'', label = None, color = None\<rparr>)
   \<and> isValidRewrite (Rewrite0 \<lparr>idG = ''y2'', label = None, color = None\<rparr> genB)
   \<and> composeRewrites (Rewrite0 genA \<lparr>idG = ''x1'', label = None, color = None\<rparr>)
        (Rewrite0 \<lparr>idG = ''y2'', label = None, color = None\<rparr> genB) =
       Inl (Error ''Generator rewrites are not composable: target/source mismatch'')
   \<and> \<not> sublist ''x1'' ''Generator rewrites are not composable: target/source mismatch''
   \<and> \<not> sublist ''y2'' ''Generator rewrites are not composable: target/source mismatch''"
proof -
  have "\<not> sublist ''x1'' ''Generator rewrites are not composable: target/source mismatch''"
    by code_simp
  moreover have "\<not> sublist ''y2'' ''Generator rewrites are not composable: target/source mismatch''"
    by code_simp
  ultimately show ?thesis
    by (simp add: composeRewrites_def isValidGenerator_def genA_def genB_def)
qed

text \<open>
  Claim C4 (amended): valid 0-dimensional rewrites \<open>a\<close> and \<open>b\<close> compose to the
  0-dimensional rewrite from \<open>a.source\<close> to \<open>b.target\<close> when
  \<open>a.target.id = b.source.id\<close>; otherwise \<open>composeRewrites\<close> raises an error with
  the fixed message \<open>Generator rewrites are not composable: target/source mismatch\<close>.
\<close>

theorem composeRewrites_dimension0:
  "isValidRewrite a \<Longrightarrow> isValidRewrite b \<Longrightarrow>
   dimensionR a = Num 0 \<Longrightarrow> dimensionR b = Num 0 \<Longrightarrow>
   \<exists>sa ta sb tb. a = Rewrite0 sa ta \<and> b = Rewrite0 sb tb
     \<and> composeRewrites a b =
         (if idG ta = idG sb then Inr (Rewrite0 sa tb)
          else Inl (Error ''Generator rewrites are not composable: target/source mismatch''))"
  by (cases a; cases b) (auto simp: composeRewrites_def createGeneratorRewrite_def)

text \<open>Claim C4, witness: one composable pair and one mismatch.\<close>

theorem composeRewrites_dimension0_witness:
  "isValidRewrite (Rewrite0 genA genB) \<and> isValidRewrite (Rewrite0 genB genA)
   \<and> dimensionR (Rewrite0 genA genB) = Num 0 \<and> dimensionR (Rewrite0 genB genA) = Num 0
   \<and> composeRewrites (Rewrite0 genA genB) (Rewrite0 genB genA) = Inr (Rewrite0 genA genA)
   \<and> composeRewrites (Rewrite0 genA genB) (Rewrite0 genA genB) =
       Inl (Error ''Generator rewrites are not composable: target/source mismatch'')"
proof -
  have h: "isValidRewrite (Rewrite0 genA genB)" "isValidRewrite (Rewrite0 genB genA)"
    "dimensionR (Rewrite0 genA genB) = Num 0" "dimensionR (Rewrite0 genB genA) = Num 0"
    by (simp_all add: genA_valid)
  have ne: "idG genB \<noteq> idG genA" by (simp add: genA_def genB_def)
  from composeRewrites_dimension0[OF h(1) h(2) h(3) h(4)]
       composeRewrites_dimension0[OF h(1) h(1) h(3) h(3)] h ne
  show ?thesis by auto
qed

subsection \<open>Composition with the empty diagram\<close>

text \<open>
  On structurally valid operands \<open>composeHorizontally\<close> stays inside the typed model
  and returns a structurally valid diagram.
\<close>

lemma numMax_pos:
  "numGt a (Num 0) \<Longrightarrow> numGt b (Num 0) \<Longrightarrow>
   numMax a b \<noteq> Num 0 \<and> \<not> numLt (numMax a b) (Num 0)"
  by (cases a; cases b) (auto simp: numMax_def)

lemma composeHorizontally_valid:
  "isValidDiagram l \<Longrightarrow> isValidDiagram r \<Longrightarrow>
   \<exists>d. composeHorizontally l r = Inr d \<and> isValidDiagram d"
proof (induction l r rule: composeHorizontally.induct)
  case (1 gl gr)
  then show ?case by (simp add: createGeneratorRewrite_def)
next
  case (2 nl sl cl nr sr cr)
  then have nz: "nl \<noteq> Num 0" "nr \<noteq> Num 0" "\<not> numLt nl (Num 0)" "\<not> numLt nr (Num 0)"
    and vs: "isValidDiagram sl" "isValidDiagram sr"
    by (auto split: if_splits)
  show ?case
  proof (cases "numGt nl (Num 0) \<and> numGt nr (Num 0)")
    case True
    with 2 nz vs obtain d where "composeHorizontally sl sr = Inr d" "isValidDiagram d" by auto
    with True nz numMax_pos[of nl nr] show ?thesis by auto
  next
    case False
    with nz vs show ?thesis by auto
  qed
next
  case (3 gl nr sr cr)
  then show ?case by (auto split: if_splits)
next
  case (4 nl sl cl gr)
  then show ?case by (auto split: if_splits)
qed

text \<open>
  So does \<open>composeDiagrams\<close>: it returns a structurally valid diagram, or raises
  because the dimensions are too far apart.
\<close>

lemma numAbs_1:
  "numAbs (numSub (Num 0) n) = Num 1 \<Longrightarrow> \<not> numLt n (Num 0) \<Longrightarrow> n = Num 1"
  "numAbs (numSub n (Num 0)) = Num 1 \<Longrightarrow> \<not> numLt n (Num 0) \<Longrightarrow> n = Num 1"
  by (cases n; auto simp: abs_if split: if_splits)+

lemma composeDiagrams_valid:
  assumes "isValidDiagram l" and "isValidDiagram r"
  shows "(\<exists>d. composeDiagrams l r = Inr d \<and> isValidDiagram d)
    \<or> composeDiagrams l r = Inl (Error ''Diagrams cannot be composed: incompatible structures'')"
proof -
  obtain dl where hl: "composeHorizontally l r = Inr dl" "isValidDiagram dl"
    using composeHorizontally_valid[OF assms] by blast
  show ?thesis
  proof (cases l; cases r)
    fix gl gr assume "l = Diagram0 gl" "r = Diagram0 gr"
    then show ?thesis using assms hl
      by (auto simp: composeDiagrams_def validateDiagramComposition_def isEmptyDiagram_def
          getCompositionType_def)
  next
    fix gl nr sr cr assume "l = Diagram0 gl" "r = DiagramN nr sr cr"
    then show ?thesis using assms hl numAbs_1(1)[of nr]
      by (auto simp: composeDiagrams_def validateDiagramComposition_def isEmptyDiagram_def
          getCompositionType_def composeByWhiskering_def split: if_splits)
  next
    fix nl sl cl gr assume "l = DiagramN nl sl cl" "r = Diagram0 gr"
    then show ?thesis using assms hl numAbs_1(2)[of nl]
      by (auto simp: composeDiagrams_def validateDiagramComposition_def isEmptyDiagram_def
          getCompositionType_def composeByWhiskering_def split: if_splits)
  next
    fix nl sl cl nr sr cr assume "l = DiagramN nl sl cl" "r = DiagramN nr sr cr"
    then show ?thesis using assms hl
      by (auto simp: composeDiagrams_def validateDiagramComposition_def isEmptyDiagram_def
          getCompositionType_def composeByWhiskering_def areVerticallyComposable_def numEq_def
          split: if_splits)
  qed
qed

text \<open>
  What \<open>composeDiagrams\<close> does with the empty diagram as an operand. The left operand
  is tested first, and the test reads the generator id only: with \<open>emptyDiagram()\<close> on
  the left the right operand is returned; with \<open>emptyDiagram()\<close> on the right the left
  operand is returned, unless it is itself taken for the empty diagram, and then the right
  operand is returned.
\<close>

lemma composeDiagrams_empty_left:
  "isValidDiagram d \<Longrightarrow> composeDiagrams createEmptyDiagram d = Inr d"
  by (cases d)
     (auto simp: composeDiagrams_def createEmptyDiagram_def isValidGenerator_def
        validateDiagramComposition_def isEmptyDiagram_def split: if_splits)

lemma composeDiagrams_empty_right:
  "isValidDiagram d \<Longrightarrow>
   composeDiagrams d createEmptyDiagram =
     (if \<exists>g. d = Diagram0 g \<and> idG g = ''empty'' then Inr createEmptyDiagram else Inr d)"
  by (cases d)
     (auto simp: composeDiagrams_def createEmptyDiagram_def isValidGenerator_def
        validateDiagramComposition_def isEmptyDiagram_def split: if_splits)

text \<open>
  Claim C3: the empty diagram is a two-sided identity for \<open>composeDiagrams\<close>. The code
  means it to be (the branch is commented as the identity case, and the test suite asserts
  both sides), but it diverges on the right: the structurally valid diagram
  \<open>{dimension: 0, generator: {id: 'empty'}}\<close>, which has no label, is itself taken for
  the empty diagram, so composing it with \<open>emptyDiagram()\<close> on the right returns
  \<open>emptyDiagram()\<close>, which carries the label \<open>\<epsilon>\<close> and is a different value.
  With the same operand on the right of \<open>emptyDiagram()\<close> the law holds.
\<close>

theorem composeDiagrams_empty_right_diverges:
  "isValidDiagram (Diagram0 \<lparr>idG = ''empty'', label = None, color = None\<rparr>)
   \<and> composeDiagrams (Diagram0 \<lparr>idG = ''empty'', label = None, color = None\<rparr>)
        createEmptyDiagram = Inr createEmptyDiagram
   \<and> createEmptyDiagram \<noteq> Diagram0 \<lparr>idG = ''empty'', label = None, color = None\<rparr>
   \<and> composeDiagrams createEmptyDiagram
        (Diagram0 \<lparr>idG = ''empty'', label = None, color = None\<rparr>) =
       Inr (Diagram0 \<lparr>idG = ''empty'', label = None, color = None\<rparr>)"
  by (simp add: composeDiagrams_def createEmptyDiagram_def isValidGenerator_def
      validateDiagramComposition_def isEmptyDiagram_def)

text \<open>
  Claim C3, witness: at this structurally valid diagram the right identity law does not
  hold, and the left one does.
\<close>

theorem composeDiagrams_empty_right_diverges_witness:
  "isValidDiagram (Diagram0 \<lparr>idG = ''empty'', label = None, color = None\<rparr>)
   \<and> composeDiagrams (Diagram0 \<lparr>idG = ''empty'', label = None, color = None\<rparr>)
        createEmptyDiagram \<noteq> Inr (Diagram0 \<lparr>idG = ''empty'', label = None, color = None\<rparr>)
   \<and> composeDiagrams createEmptyDiagram
        (Diagram0 \<lparr>idG = ''empty'', label = None, color = None\<rparr>) =
       Inr (Diagram0 \<lparr>idG = ''empty'', label = None, color = None\<rparr>)"
  using composeDiagrams_empty_right_diverges by simp

subsection \<open>Contraction\<close>

lemma all_stable_valid:
  "list_all stableR rs \<Longrightarrow> list_all isValidRewrite rs"
  "list_all stableCone cs \<Longrightarrow> list_all isValidCone cs"
  "list_all stableCospan ps \<Longrightarrow> list_all isValidCospan ps"
  by (auto simp: list_all_iff stableR_def stableCone_def stableCospan_def)

lemma all_stable_fixed:
  "list_all stableR rs \<Longrightarrow> mapE contractRewrite rs = Inr rs"
  "list_all stableCone cs \<Longrightarrow> mapE contractCone cs = Inr cs"
  "list_all stableCospan ps \<Longrightarrow> mapE contractCospan ps = Inr ps"
  by (rule mapE_fixed; simp add: list_all_iff stableR_def stableCone_def stableCospan_def)+

lemma contractRewrite_stable:
  "isValidRewrite r \<longrightarrow>
     (\<exists>r'. contractRewrite r = Inr r' \<and> stableR r' \<and> dimensionR r' = dimensionR r)"
  and contractCone_stable:
  "isValidCone c \<longrightarrow> (\<exists>c'. contractCone c = Inr c' \<and> stableCone c')"
  and contractCospan_stable:
  "isValidCospan p \<longrightarrow> (\<exists>p'. contractCospan p = Inr p' \<and> stableCospan p')"
proof (induction r and c and p rule: rewrite.induct cone.induct cospan.induct)
  case (Rewrite0 s t)
  then show ?case by (simp add: stableR_def)
next
  case RewriteI
  then show ?case by (simp add: stableR_def)
next
  case (RewriteN n cs)
  show ?case
  proof
    assume v: "isValidRewrite (RewriteN n cs)"
    then have n: "n \<noteq> Num 0" "n \<noteq> Num 1" "\<not> numLt n (Num 0)" and vc: "list_all isValidCone cs"
      by (auto split: if_splits)
    have "\<And>x. x \<in> set cs \<Longrightarrow> \<exists>y. contractCone x = Inr y \<and> stableCone y"
      using RewriteN vc by (auto simp: list_all_iff)
    from mapE_Inr[of cs contractCone stableCone, OF this]
    obtain cs' where cs': "mapE contractCone cs = Inr cs'" "list_all stableCone cs'"
      by blast
    have "stableR (RewriteN n cs')"
      using n all_stable_valid(2)[OF cs'(2)] all_stable_fixed(2)[OF cs'(2)]
      by (simp add: stableR_def)
    then show "\<exists>r'. contractRewrite (RewriteN n cs) = Inr r' \<and> stableR r' \<and>
        dimensionR r' = dimensionR (RewriteN n cs)"
      using n vc cs'(1) by simp
  qed
next
  case (Cone i src tgt sl)
  show ?case
  proof
    assume v: "isValidCone (Cone i src tgt sl)"
    then have i: "\<not> numLt i (Num 0)" and vt: "isValidCospan tgt" and vs: "list_all isValidCospan src"
      and vl: "list_all isValidRewrite sl"
      by (auto split: if_splits)
    have "\<And>x. x \<in> set src \<Longrightarrow> \<exists>y. contractCospan x = Inr y \<and> stableCospan y"
      using Cone(1) vs by (fastforce simp: list_all_iff)
    from mapE_Inr[of src contractCospan stableCospan, OF this]
    obtain src' where src': "mapE contractCospan src = Inr src'" "list_all stableCospan src'"
      by blast
    obtain tgt' where tgt': "contractCospan tgt = Inr tgt'" "stableCospan tgt'"
      using Cone(2) vt by blast
    have "\<And>x. x \<in> set sl \<Longrightarrow> \<exists>y. contractRewrite x = Inr y \<and> stableR y"
      using Cone(3) vl by (fastforce simp: list_all_iff)
    from mapE_Inr[of sl contractRewrite stableR, OF this]
    obtain sl' where sl': "mapE contractRewrite sl = Inr sl'" "list_all stableR sl'"
      by blast
    have "stableCone (Cone i src' tgt' sl')"
      using i tgt'(2) all_stable_valid(3)[OF src'(2)] all_stable_fixed(3)[OF src'(2)]
        all_stable_valid(1)[OF sl'(2)] all_stable_fixed(1)[OF sl'(2)]
      by (simp add: stableCone_def stableCospan_def)
    then show "\<exists>c'. contractCone (Cone i src tgt sl) = Inr c' \<and> stableCone c'"
      using src'(1) tgt'(1) sl'(1) by simp
  qed
next
  case (Cospan f b)
  show ?case
  proof
    assume v: "isValidCospan (Cospan f b)"
    then obtain f' b' where f': "contractRewrite f = Inr f'" "stableR f'"
        "dimensionR f' = dimensionR f"
      and b': "contractRewrite b = Inr b'" "stableR b'" "dimensionR b' = dimensionR b"
      using Cospan by auto
    have vf: "isValidRewrite f" "isValidRewrite b" using v by simp_all
    consider (ident) "dimensionR f = Num 1 \<and> dimensionR b = Num 1"
      | (gen) "\<not> (dimensionR f = Num 1 \<and> dimensionR b = Num 1)"
          "dimensionR f = Num 0 \<and> dimensionR b = Num 0"
      | (high) "\<not> (dimensionR f = Num 1 \<and> dimensionR b = Num 1)"
          "\<not> (dimensionR f = Num 0 \<and> dimensionR b = Num 0)"
      by blast
    then show "\<exists>p'. contractCospan (Cospan f b) = Inr p' \<and> stableCospan p'"
    proof cases
      case ident
      then show ?thesis using vf by (simp add: stableCospan_def)
    next
      case gen
      then show ?thesis using vf by (simp add: stableCospan_def)
    next
      case high
      then have "stableCospan (Cospan f' b')"
        using f' b' by (simp add: stableCospan_def stableR_def)
      then show ?thesis using high vf f'(1) b'(1) by auto
    qed
  qed
qed

text \<open>The depth guard of \<open>contractDiagram\<close> on any diagram, valid or not.\<close>

lemma checkCyclesC_posRun:
  "checkCyclesC d k =
     (if k + posRun d > MAX_DEPTH
      then Some (Error ''Cyclic reference detected in diagram'')
      else None)"
proof (induction d arbitrary: k)
  case (Diagram0 g)
  then show ?case by simp
next
  case (DiagramN n src cs)
  show ?case using DiagramN.IH[of "k + 1"] by auto
qed

lemma contractDiagram_deep:
  "isValidDiagram d \<Longrightarrow> \<not> depthOK d \<Longrightarrow>
   contractDiagram d = Inl (Error ''Cyclic reference detected in diagram'')"
proof (induction d)
  case (Diagram0 g)
  then show ?case by simp
next
  case (DiagramN n src cs)
  from DiagramN.prems(1) have n: "n \<noteq> Num 0" and vs: "isValidDiagram src"
    by (auto split: if_splits)
  show ?case
  proof (cases "posRun (DiagramN n src cs) \<le> MAX_DEPTH")
    case True
    then have "\<not> depthOK src" using DiagramN.prems(2) by simp
    from DiagramN.IH[OF vs this] True DiagramN.prems(1) n show ?thesis
      by (simp add: checkCyclesC_posRun del: isValidDiagram.simps checkCyclesC.simps posRun.simps)
  next
    case False
    with DiagramN.prems(1) show ?thesis
      by (simp add: checkCyclesC_posRun del: isValidDiagram.simps checkCyclesC.simps posRun.simps)
  qed
qed

lemma contractDiagram_ok:
  "isValidDiagram d \<Longrightarrow> depthOK d \<Longrightarrow>
   \<exists>n. contractDiagram d = Inr n \<and> isValidDiagram n \<and> posRun n = posRun d \<and> depthOK n
       \<and> contractDiagram n = Inr n"
proof (induction d)
  case (Diagram0 g)
  then show ?case by (simp add: MAX_DEPTH_def)
next
  case (DiagramN k src cs)
  let ?d = "DiagramN k src cs"
  let ?g = "\<lambda>c. if isValidCospan c then contractCospan c else Inr c"
  let ?Q = "\<lambda>c'. isValidCospan c' \<longrightarrow> contractCospan c' = Inr c'"
  from DiagramN.prems have k: "k \<noteq> Num 0" "\<not> numLt k (Num 0)" and vs: "isValidDiagram src"
    and ds: "depthOK src" and pr: "posRun ?d \<le> MAX_DEPTH"
    by (auto split: if_splits)
  from DiagramN.IH[OF vs ds] obtain ns where ns: "contractDiagram src = Inr ns"
    "isValidDiagram ns" "posRun ns = posRun src" "depthOK ns" "contractDiagram ns = Inr ns"
    by blast
  have "\<And>c. c \<in> set cs \<Longrightarrow> \<exists>c'. ?g c = Inr c' \<and> ?Q c'"
    using contractCospan_stable by (auto simp: stableCospan_def)
  from mapE_Inr[of cs ?g ?Q, OF this] obtain ncs where ncs: "mapE ?g cs = Inr ncs"
    "list_all ?Q ncs" by blast
  let ?n = "DiagramN k ns ncs"
  have cc: "checkCyclesC ?d 0 = None"
    using pr by (simp add: checkCyclesC_posRun del: checkCyclesC.simps posRun.simps)
  have res: "contractDiagram ?d = Inr ?n"
    using DiagramN.prems(1) cc k ns(1) ncs(1) by (simp del: checkCyclesC.simps)
  have vn: "isValidDiagram ?n" using k ns(2) by simp
  have pn: "posRun ?n = posRun ?d" using ns(3) by simp
  have dn: "depthOK ?n" using pn pr ns(4) by (simp del: posRun.simps)
  have m2: "mapE ?g ncs = Inr ncs"
    by (rule mapE_fixed) (use ncs(2) in \<open>auto simp: list_all_iff\<close>)
  have cc2: "checkCyclesC ?n 0 = None"
    using pn pr by (simp add: checkCyclesC_posRun del: checkCyclesC.simps posRun.simps)
  have idem: "contractDiagram ?n = Inr ?n"
    using vn cc2 k ns(5) m2 by (simp del: checkCyclesC.simps isValidDiagram.simps)
  show ?case using res vn pn dn idem by blast
qed

text \<open>
  Claim C6, as stated, fails on deep input: \<open>contractDiagram\<close> raises on a
  structurally valid tower of 101 levels instead of returning a diagram.
\<close>

theorem contractDiagram_fixed_point_counterexample:
  "isValidDiagram (tower 101 (Diagram0 genA))
   \<and> contractDiagram (tower 101 (Diagram0 genA)) =
       Inl (Error ''Cyclic reference detected in diagram'')"
proof -
  have v: "isValidDiagram (tower 101 (Diagram0 genA))"
    by (simp add: tower_valid genA_valid)
  have "posRun (tower 101 (Diagram0 genA)) = 101"
    by (simp add: tower_posRun)
  then have "checkCyclesC (tower 101 (Diagram0 genA)) 0 =
      Some (Error ''Cyclic reference detected in diagram'')"
    by (simp add: checkCyclesC_posRun MAX_DEPTH_def)
  with v show ?thesis
    by (cases "tower 101 (Diagram0 genA)") (simp_all del: isValidDiagram.simps checkCyclesC.simps)
qed

text \<open>
  Claim C6 (amended): for every structurally valid diagram in which no more than
  \<open>MAX_DEPTH\<close> = 100 consecutive levels of the source chain have a dimension greater
  than 0 (in particular whenever the chain has at most 100 levels), \<open>contractDiagram\<close>
  returns a structurally valid diagram, and contracting that diagram again returns it
  unchanged; on every other structurally valid diagram \<open>contractDiagram\<close> raises.
\<close>

theorem contractDiagram_fixed_point:
  "isValidDiagram d \<Longrightarrow>
   (if depthOK d
    then \<exists>n. contractDiagram d = Inr n \<and> isValidDiagram n \<and> contractDiagram n = Inr n
    else contractDiagram d = Inl (Error ''Cyclic reference detected in diagram''))
   \<and> (chainDepth d \<le> MAX_DEPTH \<longrightarrow> depthOK d)"
  using contractDiagram_ok[of d] contractDiagram_deep[of d] chainDepth_depthOK[of d]
  by auto

text \<open>
  Claim C6, witness: a nested diagram whose first cospan has a leg with a cone; and a tower
  of 101 levels of dimension \<open>NaN\<close>, which the depth guard does not count.
\<close>

theorem contractDiagram_fixed_point_witness:
  "isValidDiagram dC \<and> chainDepth dC \<le> MAX_DEPTH \<and> depthOK dC
   \<and> (\<exists>n. contractDiagram dC = Inr n \<and> isValidDiagram n \<and> contractDiagram n = Inr n)
   \<and> isValidDiagram (nanTower 101 (Diagram0 genA))
   \<and> chainDepth (nanTower 101 (Diagram0 genA)) = 101
   \<and> depthOK (nanTower 101 (Diagram0 genA))
   \<and> (\<exists>n. contractDiagram (nanTower 101 (Diagram0 genA)) = Inr n \<and> isValidDiagram n
          \<and> contractDiagram n = Inr n)"
proof -
  have h: "isValidDiagram dC" "chainDepth dC \<le> MAX_DEPTH" "depthOK dC"
    by (simp_all add: dC_def genA_valid MAX_DEPTH_def)
  have t: "isValidDiagram (nanTower 101 (Diagram0 genA))"
    "chainDepth (nanTower 101 (Diagram0 genA)) = 101"
    "depthOK (nanTower 101 (Diagram0 genA))"
    by (simp_all add: nanTower_facts genA_valid)
  from contractDiagram_fixed_point[OF h(1)] contractDiagram_fixed_point[OF t(1)] h t
  show ?thesis by simp
qed

subsection \<open>Axiom validation\<close>

lemma getAxiomResult_add:
  "getAxiomResult (addAxiomResult k e w r) i = (if i = k then Some (e, w) else getAxiomResult r i)"
  by (simp add: getAxiomResult_def addAxiomResult_def update_conv')

lemma validateLoop_other:
  "i \<notin> idA ` set axs \<Longrightarrow> getAxiomResult (validateLoop d axs r) i = getAxiomResult r i"
  by (induction axs arbitrary: r) (auto simp: getAxiomResult_add)

lemma validateLoop_member:
  "distinct (map idA axs) \<Longrightarrow> a \<in> set axs \<Longrightarrow>
   getAxiomResult (validateLoop d axs r) (idA a) = Some (runAxiom a d)"
proof (induction axs arbitrary: r)
  case Nil
  then show ?case by simp
next
  case (Cons x xs)
  show ?case
  proof (cases "a \<in> set xs")
    case True
    with Cons show ?thesis by simp
  next
    case False
    with Cons.prems have ax: "a = x" and "idA x \<notin> idA ` set xs" by auto
    then show ?thesis by (simp add: validateLoop_other getAxiomResult_add)
  qed
qed

lemma validateLoop_keys:
  "distinct (map idA axs) \<Longrightarrow> idA ` set axs \<inter> set (getValidatedAxioms r) = {} \<Longrightarrow>
   getValidatedAxioms (validateLoop d axs r) = getValidatedAxioms r @ map idA axs"
proof (induction axs arbitrary: r)
  case Nil
  then show ?case by simp
next
  case (Cons x xs)
  let ?r = "addAxiomResult (idA x) (fst (runAxiom x d)) (snd (runAxiom x d)) r"
  have k: "getValidatedAxioms ?r = getValidatedAxioms r @ [idA x]"
    using Cons.prems(2) by (simp add: getValidatedAxioms_def addAxiomResult_def update_keys)
  have "idA ` set xs \<inter> set (getValidatedAxioms ?r) = {}"
    using Cons.prems by (auto simp: k)
  with Cons.IH[of ?r] Cons.prems(1) show ?case by (simp add: k)
qed

lemma registryOK_ids:
  "registryOK registry \<Longrightarrow> map idA (getAllAxioms registry) = map fst registry"
  by (induction registry) (auto simp: registryOK_def getAllAxioms_def)

lemma update_absent: "k \<notin> fst ` set al \<Longrightarrow> AList.update k v al = al @ [(k, v)]"
  by (induction al) auto

lemma register_ok:
  "registryOK registry \<Longrightarrow> register axiom registry = Inr registry' \<Longrightarrow>
   registryOK registry' \<and> getAllAxioms registry' = getAllAxioms registry @ [axiom]"
proof -
  assume ok: "registryOK registry" and r: "register axiom registry = Inr registry'"
  from r have absent: "idA axiom \<notin> fst ` set registry"
    by (auto simp: register_def hasAxiom_def map_of_eq_None_iff split: if_splits)
  with r have "registry' = registry @ [(idA axiom, axiom)]"
    by (auto simp: register_def update_absent split: if_splits)
  with ok absent show ?thesis
    by (auto simp: registryOK_def getAllAxioms_def)
qed

text \<open>
  Claim C7: \<open>validateAllAxioms\<close> isolates a throwing validator. On a structurally valid
  diagram, the report entry under the id of a registered axiom whose validator throws holds
  exactly one error, an \<open>AXIOM_VALIDATION_ERROR\<close> naming that axiom, and no warning;
  every other registered axiom is still run and its results are recorded under its own id
  (errors and warnings as its validator returned them); every registered axiom has an entry.
\<close>

theorem validateAllAxioms_isolates_throwing_validator:
  assumes "isValidDiagram d" and "registryOK registry"
    and "axiom \<in> set (getAllAxioms registry)" and "validator axiom d = Inl thrown"
  shows "getAxiomResult (validateAllAxioms d registry) (idA axiom) =
           Some ([\<lparr>code = ''AXIOM_VALIDATION_ERROR'',
                   message = ''Error validating axiom '' @ idA axiom @ '': '' @
                     (case thrown of Error m \<Rightarrow> m | _ \<Rightarrow> ''Unknown error''),
                   severity = SevError, location = None\<rparr>], [])
         \<and> (\<forall>other \<in> set (getAllAxioms registry). \<forall>results.
               validator other d = Inr results \<longrightarrow>
               getAxiomResult (validateAllAxioms d registry) (idA other) =
                 Some (filter (\<lambda>r. severity r = SevError) results,
                       filter (\<lambda>r. severity r = SevWarning) results))
         \<and> getValidatedAxioms (validateAllAxioms d registry) = map idA (getAllAxioms registry)"
proof -
  have dist: "distinct (map idA (getAllAxioms registry))"
    using assms(2) by (simp add: registryOK_ids) (simp add: registryOK_def)
  have run: "\<And>a. a \<in> set (getAllAxioms registry) \<Longrightarrow>
      getAxiomResult (validateAllAxioms d registry) (idA a) = Some (runAxiom a d)"
    using assms(1) dist by (simp add: validateAllAxioms_def validateLoop_member)
  have keys: "getValidatedAxioms (validateAllAxioms d registry) = map idA (getAllAxioms registry)"
    using assms(1) validateLoop_keys[OF dist, of "\<lparr>diagramOf = d, axiomResults = []\<rparr>" d]
    by (simp add: validateAllAxioms_def getValidatedAxioms_def)
  show ?thesis
    using run[OF assms(3)] assms(4) run keys by (auto simp: runAxiom_def)
qed

lemma sampleRegistry_facts:
  "isValidDiagram (Diagram0 genA)" "registryOK sampleRegistry"
  "throwingAxiom \<in> set (getAllAxioms sampleRegistry)"
  "validator throwingAxiom (Diagram0 genA) = Inl (Error ''boom'')"
  "reportingAxiom \<in> set (getAllAxioms sampleRegistry)"
  by (simp_all add: genA_valid registryOK_def sampleRegistry_def getAllAxioms_def
      throwingAxiom_def reportingAxiom_def silentAxiom_def)

text \<open>Claim C7, witness: the sample registry, whose first axiom throws.\<close>

theorem validateAllAxioms_isolates_throwing_validator_witness:
  "isValidDiagram (Diagram0 genA) \<and> registryOK sampleRegistry
   \<and> throwingAxiom \<in> set (getAllAxioms sampleRegistry)
   \<and> validator throwingAxiom (Diagram0 genA) = Inl (Error ''boom'')
   \<and> getAxiomResult (validateAllAxioms (Diagram0 genA) sampleRegistry) ''bad'' =
       Some ([\<lparr>code = ''AXIOM_VALIDATION_ERROR'',
               message = ''Error validating axiom bad: boom'',
               severity = SevError, location = None\<rparr>], [])
   \<and> getAxiomResult (validateAllAxioms (Diagram0 genA) sampleRegistry) ''rep'' =
       Some ([\<lparr>code = ''E1'', message = ''an error'', severity = SevError, location = None\<rparr>],
             [\<lparr>code = ''W1'', message = ''a warning'', severity = SevWarning, location = None\<rparr>])
   \<and> getValidatedAxioms (validateAllAxioms (Diagram0 genA) sampleRegistry) = [''bad'', ''rep'', ''ok'']"
proof -
  note t = validateAllAxioms_isolates_throwing_validator[OF sampleRegistry_facts(1-4)]
  have ids: "idA throwingAxiom = ''bad''" "idA reportingAxiom = ''rep''"
    "map idA (getAllAxioms sampleRegistry) = [''bad'', ''rep'', ''ok'']"
    by (simp_all add: throwingAxiom_def reportingAxiom_def silentAxiom_def sampleRegistry_def
        getAllAxioms_def)
  have rep: "validator reportingAxiom (Diagram0 genA) =
      Inr [\<lparr>code = ''E1'', message = ''an error'', severity = SevError, location = None\<rparr>,
           \<lparr>code = ''I1'', message = ''a note'', severity = SevInfo, location = None\<rparr>,
           \<lparr>code = ''W1'', message = ''a warning'', severity = SevWarning, location = None\<rparr>]"
    by (simp add: reportingAxiom_def)
  from t have t1: "getAxiomResult (validateAllAxioms (Diagram0 genA) sampleRegistry) ''bad'' =
       Some ([\<lparr>code = ''AXIOM_VALIDATION_ERROR'',
               message = ''Error validating axiom bad: boom'',
               severity = SevError, location = None\<rparr>], [])"
    by (simp add: ids)
  from t sampleRegistry_facts(5) rep
  have t2: "getAxiomResult (validateAllAxioms (Diagram0 genA) sampleRegistry) (idA reportingAxiom) =
       Some (filter (\<lambda>r. severity r = SevError)
               [\<lparr>code = ''E1'', message = ''an error'', severity = SevError, location = None\<rparr>,
                \<lparr>code = ''I1'', message = ''a note'', severity = SevInfo, location = None\<rparr>,
                \<lparr>code = ''W1'', message = ''a warning'', severity = SevWarning, location = None\<rparr>],
             filter (\<lambda>r. severity r = SevWarning)
               [\<lparr>code = ''E1'', message = ''an error'', severity = SevError, location = None\<rparr>,
                \<lparr>code = ''I1'', message = ''a note'', severity = SevInfo, location = None\<rparr>,
                \<lparr>code = ''W1'', message = ''a warning'', severity = SevWarning, location = None\<rparr>])"
    by blast
  from t have t3: "getValidatedAxioms (validateAllAxioms (Diagram0 genA) sampleRegistry) =
      [''bad'', ''rep'', ''ok'']"
    by (simp add: ids)
  show ?thesis using sampleRegistry_facts t1 t2 t3 by (simp add: ids)
qed

lemma genCo_valid: "isValidGenerator genCo"
  by (simp add: genCo_def isValidGenerator_def)

lemma category_partition:
  "mset (filter (\<lambda>a. category a = Structural) axs)
   + mset (filter (\<lambda>a. category a = CartesianCat) axs)
   + mset (filter (\<lambda>a. category a = CocartesianCat) axs) = mset axs"
proof (induction axs)
  case Nil
  then show ?case by simp
next
  case (Cons a axs)
  then show ?case by (cases "category a") (simp_all add: ac_simps)
qed

lemma validateLoop_permuted:
  assumes "distinct (map idA axs)" and "mset out = mset axs"
  shows "getAxiomResult (validateLoop d out r) i = getAxiomResult (validateLoop d axs r) i"
proof -
  have "mset (map idA out) = mset (map idA axs)" using assms(2) by simp
  then have dout: "distinct (map idA out)"
    using assms(1) by (metis mset_eq_imp_distinct_iff)
  have sets: "set out = set axs" using assms(2) by (rule mset_eq_setD)
  show ?thesis
  proof (cases "i \<in> idA ` set axs")
    case True
    then obtain a where a: "a \<in> set axs" "i = idA a" by auto
    then show ?thesis
      using validateLoop_member[OF assms(1) a(1)] validateLoop_member[OF dout, of a] sets
      by simp
  next
    case False
    then show ?thesis using sets by (simp add: validateLoop_other)
  qed
qed

text \<open>
  Claim C8, as stated, fails above dimension 0: for a dimension-1 diagram whose root
  generator is cocartesian, the cartesian axiom is still placed before the cocartesian one.
\<close>

theorem optimizeValidationOrder_counterexample:
  "isValidDiagram (DiagramN (Num 1) (Diagram0 genCo) [])
   \<and> color (rootGenerator (DiagramN (Num 1) (Diagram0 genCo) [])) = Some Cocartesian
   \<and> category throwingAxiom = CartesianCat
   \<and> category reportingAxiom = CocartesianCat
   \<and> optimizeValidationOrder [silentAxiom, throwingAxiom, reportingAxiom]
        (DiagramN (Num 1) (Diagram0 genCo) []) =
       Inr [silentAxiom, throwingAxiom, reportingAxiom]"
  by (simp add: optimizeValidationOrder_def isValidGenerator_def genCo_def throwingAxiom_def
      reportingAxiom_def silentAxiom_def)

text \<open>
  Claim C8 (amended): for every diagram, structurally valid or not, other than an object of
  dimension 0 that has no generator, \<open>optimizeValidationOrder\<close> returns the structural
  axioms first, then the cocartesian ones followed by the cartesian ones when the diagram
  itself is 0-dimensional with a cocartesian generator, and the cartesian ones followed by
  the cocartesian ones in every other case (a 0-dimensional diagram with a cartesian or an
  uncolored generator, or a diagram of any other dimension, whatever the polarity of its
  root). The result is a permutation of the input, each axiom's validation result is
  unchanged, and for axioms with distinct ids the report built in the new order has the same
  entry under every id as the one built in the original order. On an object of dimension 0
  that has no generator the call raises a TypeError.
\<close>

theorem optimizeValidationOrder_order:
  "(if \<exists>src cs. d = DiagramN (Num 0) src cs
    then optimizeValidationOrder axioms d = Inl (typeError ''color'')
    else \<exists>out. optimizeValidationOrder axioms d = Inr out
       \<and> out = filter (\<lambda>a. category a = Structural) axioms @
           (if \<exists>g. d = Diagram0 g \<and> color g = Some Cocartesian
            then filter (\<lambda>a. category a = CocartesianCat) axioms @
                 filter (\<lambda>a. category a = CartesianCat) axioms
            else filter (\<lambda>a. category a = CartesianCat) axioms @
                 filter (\<lambda>a. category a = CocartesianCat) axioms)
       \<and> mset out = mset axioms
       \<and> mset (map (\<lambda>a. (idA a, runAxiom a d)) out) =
           mset (map (\<lambda>a. (idA a, runAxiom a d)) axioms)
       \<and> (distinct (map idA axioms) \<longrightarrow>
            (\<forall>report i. getAxiomResult (validateLoop d out report) i =
                        getAxiomResult (validateLoop d axioms report) i)))"
proof (cases "\<exists>src cs. d = DiagramN (Num 0) src cs")
  case True
  then show ?thesis by (auto simp: optimizeValidationOrder_def Let_def)
next
  case False
  let ?s = "filter (\<lambda>a. category a = Structural) axioms"
  let ?c = "filter (\<lambda>a. category a = CartesianCat) axioms"
  let ?k = "filter (\<lambda>a. category a = CocartesianCat) axioms"
  let ?out = "?s @ (if \<exists>g. d = Diagram0 g \<and> color g = Some Cocartesian then ?k @ ?c else ?c @ ?k)"
  have res: "optimizeValidationOrder axioms d = Inr ?out"
    using False by (cases d) (auto simp: optimizeValidationOrder_def Let_def split: if_splits)
  have ms: "mset ?out = mset axioms"
    using category_partition[of axioms] by (simp add: ac_simps)
  then have ms2: "mset (map (\<lambda>a. (idA a, runAxiom a d)) ?out) =
      mset (map (\<lambda>a. (idA a, runAxiom a d)) axioms)"
    by (metis mset_map)
  have rep: "distinct (map idA axioms) \<longrightarrow>
          (\<forall>report i. getAxiomResult (validateLoop d ?out report) i =
                      getAxiomResult (validateLoop d axioms report) i)"
    using validateLoop_permuted[OF _ ms] by blast
  from res ms ms2 rep have "\<exists>out. optimizeValidationOrder axioms d = Inr out
       \<and> out = ?out
       \<and> mset out = mset axioms
       \<and> mset (map (\<lambda>a. (idA a, runAxiom a d)) out) =
           mset (map (\<lambda>a. (idA a, runAxiom a d)) axioms)
       \<and> (distinct (map idA axioms) \<longrightarrow>
            (\<forall>report i. getAxiomResult (validateLoop d out report) i =
                        getAxiomResult (validateLoop d axioms report) i))"
    by blast
  with False show ?thesis by simp
qed

text \<open>
  Claim C8, witness: a 0-dimensional cocartesian diagram and the three sample axioms; a
  0-dimensional diagram whose generator has an empty id, which is not structurally valid;
  and an object of dimension 0 without a generator.
\<close>

theorem optimizeValidationOrder_order_witness:
  "distinct (map idA [throwingAxiom, reportingAxiom, silentAxiom])
   \<and> optimizeValidationOrder [throwingAxiom, reportingAxiom, silentAxiom] (Diagram0 genCo) =
       Inr [silentAxiom, reportingAxiom, throwingAxiom]
   \<and> getAxiomResult (validateLoop (Diagram0 genCo) [silentAxiom, reportingAxiom, throwingAxiom]
          \<lparr>diagramOf = Diagram0 genCo, axiomResults = []\<rparr>) ''rep'' =
     getAxiomResult (validateLoop (Diagram0 genCo) [throwingAxiom, reportingAxiom, silentAxiom]
          \<lparr>diagramOf = Diagram0 genCo, axiomResults = []\<rparr>) ''rep''
   \<and> \<not> isValidDiagram (Diagram0 \<lparr>idG = [], label = None, color = None\<rparr>)
   \<and> optimizeValidationOrder [throwingAxiom, reportingAxiom, silentAxiom]
        (Diagram0 \<lparr>idG = [], label = None, color = None\<rparr>) =
       Inr [silentAxiom, throwingAxiom, reportingAxiom]
   \<and> optimizeValidationOrder [throwingAxiom, reportingAxiom, silentAxiom]
        (DiagramN (Num 0) (Diagram0 genCo) []) = Inl (typeError ''color'')"
proof -
  have cats: "category throwingAxiom = CartesianCat" "category reportingAxiom = CocartesianCat"
    "category silentAxiom = Structural"
    by (simp_all add: throwingAxiom_def reportingAxiom_def silentAxiom_def)
  have ids: "distinct (map idA [throwingAxiom, reportingAxiom, silentAxiom])"
    by (simp add: throwingAxiom_def reportingAxiom_def silentAxiom_def)
  have co: "color genCo = Some Cocartesian" by (simp add: genCo_def)
  from optimizeValidationOrder_order[of "Diagram0 genCo" "[throwingAxiom, reportingAxiom, silentAxiom]"]
  obtain out where out: "optimizeValidationOrder [throwingAxiom, reportingAxiom, silentAxiom]
        (Diagram0 genCo) = Inr out"
    "out = [silentAxiom, reportingAxiom, throwingAxiom]"
    "distinct (map idA [throwingAxiom, reportingAxiom, silentAxiom]) \<longrightarrow>
          (\<forall>report i. getAxiomResult (validateLoop (Diagram0 genCo) out report) i =
             getAxiomResult (validateLoop (Diagram0 genCo)
               [throwingAxiom, reportingAxiom, silentAxiom] report) i)"
    by (auto simp: cats co)
  from optimizeValidationOrder_order[of "Diagram0 \<lparr>idG = [], label = None, color = None\<rparr>"
      "[throwingAxiom, reportingAxiom, silentAxiom]"]
  have inv: "optimizeValidationOrder [throwingAxiom, reportingAxiom, silentAxiom]
        (Diagram0 \<lparr>idG = [], label = None, color = None\<rparr>) =
       Inr [silentAxiom, throwingAxiom, reportingAxiom]"
    by (auto simp: cats)
  from optimizeValidationOrder_order[of "DiagramN (Num 0) (Diagram0 genCo) []"
      "[throwingAxiom, reportingAxiom, silentAxiom]"]
  have te: "optimizeValidationOrder [throwingAxiom, reportingAxiom, silentAxiom]
        (DiagramN (Num 0) (Diagram0 genCo) []) = Inl (typeError ''color'')"
    by simp
  have nv: "\<not> isValidDiagram (Diagram0 \<lparr>idG = [], label = None, color = None\<rparr>)"
    by (simp add: isValidGenerator_def)
  show ?thesis using out ids inv te nv by blast
qed

subsection \<open>The validators on untyped values\<close>

lemma andThen_simps [simp]:
  "andThen None b = None" "andThen (Some False) b = Some False" "andThen (Some True) b = b"
  by (simp_all add: andThen_def)


lemma andThen_Some: "andThen (Some a) (Some b) = Some (a \<and> b)"
  by (cases a) simp_all

lemma validH_TRewrite:
  "validH h (TRewrite v) =
     isValidRewriteBody h v (validH h (TEveryCone (elems h (field h v ''cones''))))"
  by (subst validH.simps) simp

lemma validH_TCospan:
  "validH h (TCospan v) =
     isValidCospanBody h v (validH h (TRewrite (field h v ''forward'')))
       (validH h (TRewrite (field h v ''backward'')))"
  by (subst validH.simps) simp

lemma validH_TCone:
  "validH h (TCone v) =
     isValidConeBody h v (validH h (TCospan (field h v ''target'')))
       (validH h (TEveryCospan (elems h (field h v ''source''))))
       (validH h (TEveryRewrite (elems h (field h v ''slices''))))"
  by (subst validH.simps) simp

lemma validH_every:
  "validH h (TEveryCone []) = Some True"
  "validH h (TEveryCone (x # xs)) = andThen (validH h (TCone x)) (validH h (TEveryCone xs))"
  "validH h (TEveryCospan []) = Some True"
  "validH h (TEveryCospan (x # xs)) = andThen (validH h (TCospan x)) (validH h (TEveryCospan xs))"
  "validH h (TEveryRewrite []) = Some True"
  "validH h (TEveryRewrite (x # xs)) = andThen (validH h (TRewrite x)) (validH h (TEveryRewrite xs))"
  by (subst validH.simps, simp)+











text \<open>
  On a heap value that represents a typed value the untyped validators return what the
  typed validators of the sections above compute.
\<close>

lemma repGenerator_valid: "repGenerator h v g \<Longrightarrow> isValidGeneratorH h v = isValidGenerator g"
  by (auto simp: repGenerator_def isValidGeneratorH_def isValidGenerator_def optStr_def
      colorVal_def split: option.splits polarity.splits)

lemma undefined_facts [simp]:
  "\<not> isObjectV h JUndefined" "\<not> isValidGeneratorH h JUndefined"
  by (simp_all add: isObjectV_def isValidGeneratorH_def)

lemma every_cone:
  "list_all2 (repCone h) vs cs \<Longrightarrow>
   (\<And>c v. c \<in> set cs \<Longrightarrow> repCone h v c \<Longrightarrow> validH h (TCone v) = Some (isValidCone c)) \<Longrightarrow>
   validH h (TEveryCone vs) = Some (list_all isValidCone cs)"
proof (induction rule: list_all2_induct)
  case Nil
  then show ?case by (simp add: validH_every)
next
  case (Cons x xs y ys)
  have "validH h (TCone x) = Some (isValidCone y)"
    using Cons.hyps(1) Cons.prems[of y x] by simp
  moreover have "validH h (TEveryCone xs) = Some (list_all isValidCone ys)"
    using Cons.IH Cons.prems by simp
  ultimately show ?case by (simp add: validH_every andThen_Some)
qed

lemma every_cospan:
  "list_all2 (repCospan h) vs cs \<Longrightarrow>
   (\<And>c v. c \<in> set cs \<Longrightarrow> repCospan h v c \<Longrightarrow> validH h (TCospan v) = Some (isValidCospan c)) \<Longrightarrow>
   validH h (TEveryCospan vs) = Some (list_all isValidCospan cs)"
proof (induction rule: list_all2_induct)
  case Nil
  then show ?case by (simp add: validH_every)
next
  case (Cons x xs y ys)
  have "validH h (TCospan x) = Some (isValidCospan y)"
    using Cons.hyps(1) Cons.prems[of y x] by simp
  moreover have "validH h (TEveryCospan xs) = Some (list_all isValidCospan ys)"
    using Cons.IH Cons.prems by simp
  ultimately show ?case by (simp add: validH_every andThen_Some)
qed

lemma every_rewrite:
  "list_all2 (repRewrite h) vs cs \<Longrightarrow>
   (\<And>c v. c \<in> set cs \<Longrightarrow> repRewrite h v c \<Longrightarrow> validH h (TRewrite v) = Some (isValidRewrite c)) \<Longrightarrow>
   validH h (TEveryRewrite vs) = Some (list_all isValidRewrite cs)"
proof (induction rule: list_all2_induct)
  case Nil
  then show ?case by (simp add: validH_every)
next
  case (Cons x xs y ys)
  have "validH h (TRewrite x) = Some (isValidRewrite y)"
    using Cons.hyps(1) Cons.prems[of y x] by simp
  moreover have "validH h (TEveryRewrite xs) = Some (list_all isValidRewrite ys)"
    using Cons.IH Cons.prems by simp
  ultimately show ?case by (simp add: validH_every andThen_Some)
qed

lemma validH_typed:
  "\<forall>v. repRewrite h v r \<longrightarrow> validH h (TRewrite v) = Some (isValidRewrite r)"
  and validH_typed_cone:
  "\<forall>v. repCone h v c \<longrightarrow> validH h (TCone v) = Some (isValidCone c)"
  and validH_typed_cospan:
  "\<forall>v. repCospan h v p \<longrightarrow> validH h (TCospan v) = Some (isValidCospan p)"
proof (induction r and c and p rule: rewrite.induct cone.induct cospan.induct)
  case (Rewrite0 s t)
  then show ?case
    by (auto simp: validH_TRewrite isValidRewriteBody_def numOf_def repGenerator_valid)
next
  case RewriteI
  then show ?case by (simp add: validH_TRewrite isValidRewriteBody_def numOf_def)
next
  case (RewriteN n cs)
  show ?case
  proof (intro allI impI)
    fix v assume rep: "repRewrite h v (RewriteN n cs)"
    then have "validH h (TEveryCone (elems h (field h v ''cones''))) = Some (list_all isValidCone cs)"
      using RewriteN by (intro every_cone) auto
    with rep show "validH h (TRewrite v) = Some (isValidRewrite (RewriteN n cs))"
      by (simp add: validH_TRewrite isValidRewriteBody_def numOf_def)
  qed
next
  case (Cone i src tgt sl)
  show ?case
  proof (intro allI impI)
    fix v assume rep: "repCone h v (Cone i src tgt sl)"
    then have s: "validH h (TEveryCospan (elems h (field h v ''source''))) =
        Some (list_all isValidCospan src)"
      using Cone(1) by (intro every_cospan) auto
    from rep have l: "validH h (TEveryRewrite (elems h (field h v ''slices''))) =
        Some (list_all isValidRewrite sl)"
      using Cone(3) by (intro every_rewrite) auto
    from rep Cone(2) have t: "validH h (TCospan (field h v ''target'')) = Some (isValidCospan tgt)"
      by simp
    from rep s l t show "validH h (TCone v) = Some (isValidCone (Cone i src tgt sl))"
      by (auto simp: validH_TCone isValidConeBody_def numOf_def andThen_Some)
  qed
next
  case (Cospan f b)
  then show ?case
    by (auto simp: validH_TCospan isValidCospanBody_def andThen_Some)
qed

lemma isValidDiagramH_typed:
  "repDiagram h v d \<Longrightarrow> isValidDiagramH h v = Some (isValidDiagram d)"
proof (induction d arbitrary: v)
  case (Diagram0 g)
  then show ?case by (subst isValidDiagramH.simps) (simp add: repGenerator_valid)
next
  case (DiagramN n src cs)
  from DiagramN.prems have "repDiagram h (field h v ''source'') src" by simp
  from DiagramN.IH[OF this] DiagramN.prems show ?case
    by (subst isValidDiagramH.simps) simp
qed








end
